theory Spec2Isabelle
  imports Complex_Main
begin

section \<open>Aerial images of SelORecon: auto-georeferencing, wheel interaction, pixmaps\<close>

text \<open>
  A shallow embedding of \<^verbatim>\<open>AerialImage.__georeference\<close>,
  \<^verbatim>\<open>AerialImage.wheelEvent\<close> and the requests for pixmaps
  (\<^verbatim>\<open>__requestPixMap\<close>, \<^verbatim>\<open>__pixMapReady\<close>, \<^verbatim>\<open>paint\<close>) of
  \<^verbatim>\<open>aerial_item.py\<close>.
  Python and Qt numbers are IEEE doubles; here they are real numbers, so the rounding of
  an arithmetic operation, infinities and NaN are outside the model. A literal of the
  source that is not a binary fraction stands for the double nearest to it, and the model
  uses that double: it is a rational number. Where the source would produce a value that
  is not a finite number (a division by a zero determinant, the square root of a negative
  numpy scalar), the model says so with \<open>None\<close>.
\<close>

subsection \<open>The literals of the source\<close>

text \<open>
  The doubles that \<^verbatim>\<open>1.e-7\<close>, \<^verbatim>\<open>1.1\<close>, \<^verbatim>\<open>.1\<close> and \<^verbatim>\<open>.3\<close> of
  \<^verbatim>\<open>aerial_item.py\<close> denote, and the one that \<^verbatim>\<open>0.000000000001\<close> of Qt's
  \<^verbatim>\<open>qFuzzyIsNull\<close> denotes: each is an odd integer over a power of two.
\<close>

definition double_1e_7 :: real where
  "double_1e_7 = 944473296573929 / 2 ^ 73"

definition double_1_1 :: real where
  "double_1_1 = 2476979795053773 / 2 ^ 51"

definition double_0_1 :: real where
  "double_0_1 = 3602879701896397 / 2 ^ 55"

definition double_0_3 :: real where
  "double_0_3 = 5404319552844595 / 2 ^ 54"

definition double_1e_12 :: real where
  "double_1e_12 = 4951760157141521 / 2 ^ 92"

subsection \<open>Qt value types\<close>

type_synonym QPointF = "real \<times> real"

text \<open>
  \<^verbatim>\<open>QTransform\<close>: the nine entries of the 3x3 matrix, named as Qt names them.
  Qt multiplies points as row vectors on the left, so \<open>m31\<close> and \<open>m32\<close>
  (Qt's \<^verbatim>\<open>dx\<close>, \<^verbatim>\<open>dy\<close>) are the translation and
  \<open>m13\<close>, \<open>m23\<close> the projective entries.
\<close>

record QTransform =
  m11 :: real
  m12 :: real
  m13 :: real
  m21 :: real
  m22 :: real
  m23 :: real
  m31 :: real
  m32 :: real
  m33 :: real

text \<open>\<^verbatim>\<open>QTransform(m11, m12, m21, m22, dx, dy)\<close>: the six-argument constructor.\<close>

definition QTransform6 :: "real \<Rightarrow> real \<Rightarrow> real \<Rightarrow> real \<Rightarrow> real \<Rightarrow> real \<Rightarrow> QTransform" where
  "QTransform6 a b c d dx dy =
     \<lparr>m11 = a, m12 = b, m13 = 0, m21 = c, m22 = d, m23 = 0, m31 = dx, m32 = dy, m33 = 1\<rparr>"

definition fromTranslate :: "real \<Rightarrow> real \<Rightarrow> QTransform" where
  "fromTranslate dx dy = QTransform6 1 0 0 1 dx dy"

definition fromScale :: "real \<Rightarrow> real \<Rightarrow> QTransform" where
  "fromScale sx sy = QTransform6 sx 0 0 sy 0 0"

text \<open>\<^verbatim>\<open>a * b\<close> on transforms: the matrix product, \<open>a\<close> applied to a point first.\<close>

definition mul :: "QTransform \<Rightarrow> QTransform \<Rightarrow> QTransform" where
  "mul a b =
     \<lparr>m11 = m11 a * m11 b + m12 a * m21 b + m13 a * m31 b,
      m12 = m11 a * m12 b + m12 a * m22 b + m13 a * m32 b,
      m13 = m11 a * m13 b + m12 a * m23 b + m13 a * m33 b,
      m21 = m21 a * m11 b + m22 a * m21 b + m23 a * m31 b,
      m22 = m21 a * m12 b + m22 a * m22 b + m23 a * m32 b,
      m23 = m21 a * m13 b + m22 a * m23 b + m23 a * m33 b,
      m31 = m31 a * m11 b + m32 a * m21 b + m33 a * m31 b,
      m32 = m31 a * m12 b + m32 a * m22 b + m33 a * m32 b,
      m33 = m31 a * m13 b + m32 a * m23 b + m33 a * m33 b\<rparr>"

text \<open>
  The member functions \<^verbatim>\<open>scale\<close>, \<^verbatim>\<open>rotate\<close> and
  \<^verbatim>\<open>translate\<close> put the new operation in front of the transform they are
  called on. \<^verbatim>\<open>rotate\<close> takes degrees.
\<close>

definition scale_by :: "QTransform \<Rightarrow> real \<Rightarrow> real \<Rightarrow> QTransform" where
  "scale_by t sx sy = mul (fromScale sx sy) t"

definition rotate_by :: "QTransform \<Rightarrow> real \<Rightarrow> QTransform" where
  "rotate_by t a =
     (let b = a * pi / 180
      in mul (QTransform6 (cos b) (sin b) (- sin b) (cos b) 0 0) t)"

definition translate_by :: "QTransform \<Rightarrow> real \<Rightarrow> real \<Rightarrow> QTransform" where
  "translate_by t dx dy = mul (fromTranslate dx dy) t"

definition isAffine :: "QTransform \<Rightarrow> bool" where
  "isAffine t \<longleftrightarrow> m13 t = 0 \<and> m23 t = 0 \<and> m33 t = 1"

text \<open>
  \<^verbatim>\<open>QTransform.map(QPointF)\<close>: the row vector \<open>(x, y, 1)\<close> times the matrix;
  a transform that is not affine divides by the homogeneous weight.
\<close>

definition map_point :: "QTransform \<Rightarrow> QPointF \<Rightarrow> QPointF" where
  "map_point t p =
     (let x = fst p; y = snd p;
          nx = m11 t * x + m21 t * y + m31 t;
          ny = m12 t * x + m22 t * y + m32 t
      in if isAffine t then (nx, ny)
         else (let w = 1 / (m13 t * x + m23 t * y + m33 t) in (nx * w, ny * w)))"

definition determinant :: "QTransform \<Rightarrow> real" where
  "determinant t =
     m11 t * (m33 t * m22 t - m32 t * m23 t)
     - m21 t * (m33 t * m12 t - m32 t * m13 t)
     + m31 t * (m23 t * m12 t - m22 t * m13 t)"

text \<open>
  Equality of points in Qt 5.15 (\<^verbatim>\<open>operator==\<close> of \<^verbatim>\<open>QPointF\<close>) is not exact: a
  coordinate that is zero on one side is compared with \<^verbatim>\<open>qFuzzyIsNull\<close> of the
  difference, any other with \<^verbatim>\<open>qFuzzyCompare\<close>, which allows a relative difference
  of \<open>1e-12\<close>. Equality of transforms compares the nine entries exactly.
\<close>

definition qFuzzyIsNull :: "real \<Rightarrow> bool" where
  "qFuzzyIsNull d \<longleftrightarrow> \<bar>d\<bar> \<le> double_1e_12"

definition qFuzzyCompare :: "real \<Rightarrow> real \<Rightarrow> bool" where
  "qFuzzyCompare p1 p2 \<longleftrightarrow> \<bar>p1 - p2\<bar> * 1000000000000 \<le> min \<bar>p1\<bar> \<bar>p2\<bar>"

definition QPointF_eq :: "QPointF \<Rightarrow> QPointF \<Rightarrow> bool" where
  "QPointF_eq p1 p2 \<longleftrightarrow>
     (if fst p1 = 0 \<or> fst p2 = 0 then qFuzzyIsNull (fst p1 - fst p2)
      else qFuzzyCompare (fst p1) (fst p2)) \<and>
     (if snd p1 = 0 \<or> snd p2 = 0 then qFuzzyIsNull (snd p1 - snd p2)
      else qFuzzyCompare (snd p1) (snd p2))"

subsection \<open>The aerial image item and its database row\<close>

datatype Availability = missing | findPreview | preview | image

fun availability_value :: "Availability \<Rightarrow> nat" where
  "availability_value missing = 0"
| "availability_value findPreview = 1"
| "availability_value preview = 2"
| "availability_value image = 3"

datatype TransformState = original | changed | locked

text \<open>The columns of the table \<^verbatim>\<open>aerials\<close> that the two operations read or write.\<close>

record aerial_row =
  scenePos :: QPointF
  trafo :: QTransform
  trafoLocked :: bool
  path :: "string option"
  previewRect :: "string option"

text \<open>
  \<^verbatim>\<open>f'{x:.2f}'\<close>: the text of the decimal number with two digits after the point
  that is nearest to \<open>x\<close>, the one with the even last digit when two are equally near.
  The text is given here by the number of hundredths it denotes.
\<close>

definition round_half_even :: "real \<Rightarrow> int" where
  "round_half_even x =
     (let f = \<lfloor>x\<rfloor>; r = x - real_of_int f
      in if r < 1 / 2 then f
         else if 1 / 2 < r then f + 1
         else if even f then f else f + 1)"

definition format_2f :: "real \<Rightarrow> int" where
  "format_2f x = round_half_even (x * 100)"

text \<open>
  What the module's logger receives: the message of \<^verbatim>\<open>logger.exception\<close>, or the
  three messages of line 804, which are the number of points and the texts of the shift
  and of the scale with two decimals (no number of hundredths when the scale is not a
  finite number and the text is \<^verbatim>\<open>nan\<close> or \<^verbatim>\<open>inf\<close>). The question dialog
  of line 806 shows the same three messages.
\<close>

datatype log_entry =
    LogException string
  | LogInfo nat int "int option"

text \<open>
  The item: Qt's own state of the graphics item (\<open>pos\<close>, \<open>transform\<close>, \<open>offset\<close>,
  \<open>opacity\<close>, the movable flag, focus, the overlay children), the attributes of the
  Python object, the position of the companion \<^verbatim>\<open>AerialPoint\<close>, the database row
  and the module's log.
\<close>

record AerialImage =
  pos :: QPointF
  transform :: QTransform
  offset :: QPointF
  opacity :: real
  attr_opacity :: real
  availability :: "Availability option"
  transformState :: TransformState
  isMovable :: bool
  hasFocus :: bool
  point_pos :: QPointF
  overlays :: "(QPointF \<times> QPointF) list"
  row :: aerial_row
  log :: "log_entry list"

definition pixMapWidth :: real where
  "pixMapWidth = 3000"

text \<open>
  \<^verbatim>\<open>__setMovability\<close> and \<^verbatim>\<open>__setTransformState\<close>. The lock overlay, the
  z-value and the pen of the point are decorations and not part of the state here.
\<close>

definition setMovability :: "AerialImage \<Rightarrow> AerialImage" where
  "setMovability s =
     (let a = (case availability s of None \<Rightarrow> missing | Some a \<Rightarrow> a)
      in s\<lparr>isMovable :=
             availability_value a \<ge> availability_value preview \<and> transformState s \<noteq> locked\<rparr>)"

definition setTransformState :: "TransformState \<Rightarrow> AerialImage \<Rightarrow> AerialImage" where
  "setTransformState ts s =
     setMovability
       (s\<lparr>transformState := ts, row := (row s)\<lparr>trafoLocked := (ts = locked)\<rparr>\<rparr>)"

text \<open>
  \<^verbatim>\<open>setPos\<close> and \<^verbatim>\<open>setTransform\<close> of \<^verbatim>\<open>QGraphicsItem\<close> return at once
  when the new value equals the old one, with Qt's equality of points and of transforms;
  otherwise they store it and call \<^verbatim>\<open>itemChange\<close> (the item has the flag
  \<^verbatim>\<open>ItemSendsGeometryChanges\<close>), which moves the point, updates the row and marks
  the transform as changed. The point is a graphics item too, so its
  \<^verbatim>\<open>setPos\<close> makes the same comparison with the position the point has.
\<close>

definition setPos :: "QPointF \<Rightarrow> AerialImage \<Rightarrow> AerialImage" where
  "setPos v s =
     (if QPointF_eq (pos s) v then s
      else setTransformState changed
             (s\<lparr>pos := v,
                point_pos := (if QPointF_eq (point_pos s) v then point_pos s else v),
                row := (row s)\<lparr>scenePos := v\<rparr>\<rparr>))"

definition setTransform :: "QTransform \<Rightarrow> AerialImage \<Rightarrow> AerialImage" where
  "setTransform v s =
     (if transform s = v then s
      else setTransformState changed
             (s\<lparr>transform := v, row := (row s)\<lparr>trafo := v\<rparr>\<rparr>))"

definition moveBy :: "real \<Rightarrow> real \<Rightarrow> AerialImage \<Rightarrow> AerialImage" where
  "moveBy dx dy s = setPos (fst (pos s) + dx, snd (pos s) + dy) s"

text \<open>The item is a top-level item: its scene transform is its transform, then its position.\<close>

definition sceneTransform :: "AerialImage \<Rightarrow> QTransform" where
  "sceneTransform s = mul (transform s) (fromTranslate (fst (pos s)) (snd (pos s)))"

definition mapToScene :: "AerialImage \<Rightarrow> QPointF \<Rightarrow> QPointF" where
  "mapToScene s p = map_point (sceneTransform s) p"

definition deviceTransform :: "AerialImage \<Rightarrow> QTransform \<Rightarrow> QTransform" where
  "deviceTransform s viewportTransform = mul (sceneTransform s) viewportTransform"

subsection \<open>The collaborators of the georeferencing call\<close>

text \<open>
  What a call can raise. An \<^verbatim>\<open>assert\<close> raises \<^verbatim>\<open>AssertionError\<close>;
  the site says which assertion it was: one of the three of
  \<^verbatim>\<open>__georeference\<close>, or the one of \<^verbatim>\<open>availability\<close>.
\<close>

datatype assert_site = BottomRow | LastColumn | PreviewRectIsNone | AvailabilityIsSet

datatype exn =
    AssertionError assert_site
  | TypeError
  | RasterOpenError
  | ZeroDivisionError
  | IndexError
  | ValueError

text \<open>
  How a call ends: \<open>Returned\<close> is Python's \<^verbatim>\<open>return\<close> (the method has no
  return value other than \<^verbatim>\<open>None\<close>), \<open>Raised\<close> an exception that leaves the method.
\<close>

datatype outcome = Returned | Raised exn

text \<open>The 2x3 array \<^verbatim>\<open>gdalTrafo\<close>: entry \<open>gij\<close> is row \<open>i\<close>, column \<open>j\<close>.\<close>

record GdalTrafo =
  g00 :: real
  g01 :: real
  g02 :: real
  g10 :: real
  g11 :: real
  g12 :: real

record Dataset =
  RasterXSize :: int

datatype georef_result =
    GeorefRaises
  | GeorefReturns GdalTrafo "QPointF list" "QPointF list"

datatype StandardButton = Yes | No

text \<open>
  Everything \<^verbatim>\<open>__georeference\<close> gets from outside the item: GDAL opening the raster
  (no dataset when it cannot), the external routine \<^verbatim>\<open>georef\<close>, which either raises or
  returns a transform and two arrays of points, the viewport transforms of the views of the
  scene, and the button the user presses in the question dialog.
\<close>

record georef_env =
  gdal_Open :: "string \<Rightarrow> Dataset option"
  georef :: "Dataset \<Rightarrow> GdalTrafo \<Rightarrow> georef_result"
  views :: "QTransform list"
  button :: StandardButton

subsection \<open>numpy arithmetic that may leave the finite numbers\<close>

definition np_div :: "real \<Rightarrow> real \<Rightarrow> real option" where
  "np_div a b = (if b = 0 then None else Some (a / b))"

definition np_sqrt :: "real option \<Rightarrow> real option" where
  "np_sqrt v = (case v of None \<Rightarrow> None | Some x \<Rightarrow> if x < 0 then None else Some (sqrt x))"

text \<open>\<^verbatim>\<open>np.linalg.det\<close> of a 2x2 array given by its rows.\<close>

definition det2 :: "real \<Rightarrow> real \<Rightarrow> real \<Rightarrow> real \<Rightarrow> real" where
  "det2 a b c d = a * d - b * c"

subsection \<open>\<^verbatim>\<open>AerialImage.__georeference\<close>\<close>

text \<open>
  The two assertions on the transform: \<^verbatim>\<open>abs(row - (0, 0, 1)).max() < 1.e-7\<close>, the
  bound being the double that the literal denotes.
\<close>

definition bottomRowOk :: "QTransform \<Rightarrow> bool" where
  "bottomRowOk tr \<longleftrightarrow> max (max \<bar>m31 tr - 0\<bar> \<bar>m32 tr - 0\<bar>) \<bar>m33 tr - 1\<bar> < double_1e_7"

definition lastColumnOk :: "QTransform \<Rightarrow> bool" where
  "lastColumnOk tr \<longleftrightarrow> max (max \<bar>m13 tr - 0\<bar> \<bar>m23 tr - 0\<bar>) \<bar>m33 tr - 1\<bar> < double_1e_7"

text \<open>
  Lines 755 to 758: the top left corner in the scene in column 0, the transpose of the
  linear part in columns 1 and 2.
\<close>

definition initialGdalTrafo :: "AerialImage \<Rightarrow> GdalTrafo" where
  "initialGdalTrafo s =
     (let tr = transform s; topLeft = mapToScene s (offset s)
      in \<lparr>g00 = fst topLeft, g01 = m11 tr, g02 = m21 tr,
          g10 = snd topLeft, g11 = m12 tr, g12 = m22 tr\<rparr>)"

text \<open>\<^verbatim>\<open>gdalTrafo[:, 1:] *= c\<close> and \<^verbatim>\<open>gdalTrafo[1, :] *= -1.\<close>\<close>

definition scaleLinear :: "real \<Rightarrow> GdalTrafo \<Rightarrow> GdalTrafo" where
  "scaleLinear c g = g\<lparr>g01 := g01 g * c, g02 := g02 g * c, g11 := g11 g * c, g12 := g12 g * c\<rparr>"

definition flipRow1 :: "GdalTrafo \<Rightarrow> GdalTrafo" where
  "flipRow1 g = g\<lparr>g10 := g10 g * (- 1), g11 := g11 g * (- 1), g12 := g12 g * (- 1)\<rparr>"

text \<open>Lines 770 to 775: the matched points at display resolution, moved by the offset.\<close>

definition toDisplay :: "real \<Rightarrow> QPointF \<Rightarrow> QPointF list \<Rightarrow> QPointF list" where
  "toDisplay c off pts = map (\<lambda>p. (fst p * c + fst off, snd p * c + snd off)) pts"

text \<open>Lines 795 to 797, on the array after lines 793 and 794.\<close>

definition newPosOf :: "GdalTrafo \<Rightarrow> QPointF \<Rightarrow> QPointF" where
  "newPosOf g off =
     (g00 g + (g01 g * (- fst off) + g02 g * (- snd off)),
      g10 g + (g11 g * (- fst off) + g12 g * (- snd off)))"

definition newTrOf :: "GdalTrafo \<Rightarrow> QTransform" where
  "newTrOf g = QTransform6 (g01 g) (g11 g) (g02 g) (g12 g) 0 0"

text \<open>Lines 801 to 803: the two diagnostics, as the local variables hold them.\<close>

definition shiftOf :: "QPointF \<Rightarrow> QPointF \<Rightarrow> real" where
  "shiftOf p newPos = sqrt ((fst p - fst newPos)\<^sup>2 + (snd p - snd newPos)\<^sup>2)"

definition scaleOf :: "GdalTrafo \<Rightarrow> QTransform \<Rightarrow> real option" where
  "scaleOf g tr =
     np_sqrt (np_div (det2 (g01 g) (g11 g) (g02 g) (g12 g))
                     (det2 (m11 tr) (m12 tr) (m21 tr) (m22 tr)))"

text \<open>
  Lines 744 to 765, everything before the \<^verbatim>\<open>try\<close>: the assertions, the row
  of the database, the raster, and the transform handed to \<^verbatim>\<open>georef\<close>. Nothing
  here writes to the item. A path that is \<^verbatim>\<open>None\<close> cannot be joined to the
  image directory, a raster that did not open has no width, and
  \<^verbatim>\<open>3000 / 0\<close> raises. \<^verbatim>\<open>GdalPushLogHandler\<close>, which is declared outside the
  files at hand, is taken to let exceptions pass.
\<close>

definition prepare :: "georef_env \<Rightarrow> AerialImage \<Rightarrow> exn + Dataset \<times> GdalTrafo" where
  "prepare env s =
     (let tr = transform s
      in if \<not> bottomRowOk tr then Inl (AssertionError BottomRow)
         else if \<not> lastColumnOk tr then Inl (AssertionError LastColumn)
         else let gdalTrafo = initialGdalTrafo s
              in if previewRect (row s) \<noteq> None then Inl (AssertionError PreviewRectIsNone)
                 else case path (row s) of
                        None \<Rightarrow> Inl TypeError
                      | Some p \<Rightarrow>
                          (case gdal_Open env p of
                             None \<Rightarrow> Inl RasterOpenError
                           | Some ds \<Rightarrow>
                               if RasterXSize ds = 0 then Inl ZeroDivisionError
                               else Inr (ds, flipRow1 (scaleLinear
                                      (pixMapWidth / real_of_int (RasterXSize ds)) gdalTrafo))))"

text \<open>
  Lines 770 to 812, after \<^verbatim>\<open>georef\<close> has returned. The pen of the lines needs
  the first view of the scene and \<^verbatim>\<open>2. / det ** .5\<close>, which raises for a zero
  determinant and gives a complex number, which \<^verbatim>\<open>QPen\<close> refuses, for a negative
  one. \<^verbatim>\<open>zip(..., strict=True)\<close> raises after the common prefix when the two
  arrays differ in length; the overlay items made until then stay. The shift and the
  scale leave the method only as the texts of line 804, with two decimals; the method
  returns \<^verbatim>\<open>None\<close>.
\<close>

definition presentResult ::
  "georef_env \<Rightarrow> AerialImage \<Rightarrow> Dataset \<Rightarrow> GdalTrafo \<Rightarrow> QPointF list \<Rightarrow> QPointF list
     \<Rightarrow> outcome \<times> AerialImage" where
  "presentResult env s ds gdalTrafo aerialPts0 orthoPts0 =
     (let p = pos s; tr = transform s;
          scaleNative2display = pixMapWidth / real_of_int (RasterXSize ds);
          off = offset s;
          aerialPts = toDisplay scaleNative2display off aerialPts0;
          orthoPts = toDisplay scaleNative2display off orthoPts0
      in case views env of
           [] \<Rightarrow> (Raised IndexError, s)
         | viewportTransform # _ \<Rightarrow>
             (let d = determinant (deviceTransform s viewportTransform)
              in if d = 0 then (Raised ZeroDivisionError, s)
                 else if d < 0 then (Raised TypeError, s)
                 else let s1 = s\<lparr>overlays := overlays s @ zip aerialPts orthoPts\<rparr>
                      in if length aerialPts \<noteq> length orthoPts then (Raised ValueError, s1)
                         else let g = scaleLinear (1 / scaleNative2display) (flipRow1 gdalTrafo);
                                  newPos = newPosOf g off;
                                  newTr = newTrOf g;
                                  s2 = setTransform newTr (setPos newPos s1);
                                  shift = shiftOf p newPos;
                                  scale = scaleOf g tr;
                                  s3 = s2\<lparr>log := log s2 @
                                         [LogInfo (length aerialPts) (format_2f shift)
                                            (map_option format_2f scale)]\<rparr>;
                                  s4 = (if button env = No then setTransform tr (setPos p s3)
                                        else s3)
                              in (Returned, s4\<lparr>overlays := overlays s\<rparr>)))"

text \<open>
  The method: a failure of \<^verbatim>\<open>georef\<close> is caught by the bare
  \<^verbatim>\<open>except\<close>, logged, and the method returns what
  \<^verbatim>\<open>logger.exception\<close> returns, which is \<^verbatim>\<open>None\<close>.
\<close>

definition georeference :: "georef_env \<Rightarrow> AerialImage \<Rightarrow> outcome \<times> AerialImage" where
  "georeference env s =
     (case prepare env s of
        Inl e \<Rightarrow> (Raised e, s)
      | Inr (ds, gdalTrafo) \<Rightarrow>
          (case georef env ds gdalTrafo of
             GeorefRaises \<Rightarrow>
               (Returned, s\<lparr>log := log s @ [LogException ''Automatic georeferencing failed.'']\<rparr>)
           | GeorefReturns g aerialPts orthoPts \<Rightarrow>
               presentResult env s ds g aerialPts orthoPts))"

text \<open>
  The array \<^verbatim>\<open>gdalTrafo\<close> after lines 793 and 794, from the dataset and the array that
  \<^verbatim>\<open>georef\<close> returned: the one that the new position, the new transform and the two
  diagnostics are computed from.
\<close>

definition refinedTrafo :: "Dataset \<Rightarrow> GdalTrafo \<Rightarrow> GdalTrafo" where
  "refinedTrafo ds g =
     scaleLinear (1 / (pixMapWidth / real_of_int (RasterXSize ds))) (flipRow1 g)"

subsection \<open>\<^verbatim>\<open>AerialImage.wheelEvent\<close>\<close>

text \<open>
  What the method reads from the \<^verbatim>\<open>QGraphicsSceneWheelEvent\<close>: the wheel delta,
  the three modifier keys, and the position of the cursor in item coordinates.
\<close>

record wheel_event =
  delta :: int
  shiftModifier :: bool
  altModifier :: bool
  controlModifier :: bool
  event_pos :: QPointF

definition numStepsOf :: "wheel_event \<Rightarrow> real" where
  "numStepsOf ev =
     (let numSteps = real_of_int (delta ev) / 8 / 15
      in if shiftModifier ev then numSteps / 10 else numSteps)"

text \<open>
  Lines 465 to 478: a zoom by \<^verbatim>\<open>1.1 ** numSteps\<close> or, with the control key, a
  rotation by \<^verbatim>\<open>numSteps * 10\<close> degrees, either one about the cursor.
\<close>

definition wheelTrafo :: "wheel_event \<Rightarrow> QTransform" where
  "wheelTrafo ev =
     (let x = fst (event_pos ev); y = snd (event_pos ev); numSteps = numStepsOf ev
      in if \<not> controlModifier ev
         then (let scale = double_1_1 powr numSteps
               in scale_by (fromTranslate (x * (1 - scale)) (y * (1 - scale))) scale scale)
         else (let angle = numSteps * 10
               in translate_by (rotate_by (fromTranslate x y) angle) (- x) (- y)))"

text \<open>
  Lines 480 to 493: the point \<^verbatim>\<open>origin\<close> of line 490, the update the method does,
  and the one its comment says it does not do (\<^verbatim>\<open>self.setTransform(combined)\<close>).
\<close>

definition originOf :: "QTransform \<Rightarrow> AerialImage \<Rightarrow> QPointF" where
  "originOf t s = map_point (mul t (transform s)) (0, 0)"

definition applyWheelTrafo :: "QTransform \<Rightarrow> AerialImage \<Rightarrow> AerialImage" where
  "applyWheelTrafo t s =
     (let combined = mul t (transform s);
          origin = map_point combined (0, 0);
          combined = mul combined (fromTranslate (- fst origin) (- snd origin))
      in moveBy (fst origin) (snd origin) (setTransform combined s))"

definition applyWheelTrafoNaive :: "QTransform \<Rightarrow> AerialImage \<Rightarrow> AerialImage" where
  "applyWheelTrafoNaive t s = setTransform (mul t (transform s)) s"

text \<open>
  The method. The second component of the result says whether the event is still accepted
  (\<^verbatim>\<open>event.ignore()\<close> clears it).
\<close>

definition wheelEvent :: "wheel_event \<Rightarrow> AerialImage \<Rightarrow> outcome \<times> bool \<times> AerialImage" where
  "wheelEvent ev s =
     (case availability s of
        None \<Rightarrow> (Raised (AssertionError AvailabilityIsSet), True, s)
      | Some a \<Rightarrow>
          if availability_value a < availability_value preview \<or> \<not> hasFocus s
          then (Returned, False, s)
          else let numSteps = numStepsOf ev
               in if altModifier ev
                  then (let v = min (max (opacity s - numSteps * double_0_1) double_0_3) 1
                        in (Returned, True, s\<lparr>attr_opacity := v, opacity := v\<rparr>))
                  else if \<not> isMovable s then (Returned, False, s)
                  else (Returned, True, applyWheelTrafo (wheelTrafo ev) s))"

text \<open>The homogeneous weight that \<^verbatim>\<open>QTransform.map\<close> divides by.\<close>

definition weight :: "QTransform \<Rightarrow> QPointF \<Rightarrow> real" where
  "weight t p = m13 t * fst p + m23 t * snd p + m33 t"

subsection \<open>The invariant of the specification\<close>

text \<open>
  The homogeneous invariant in the words of the specification: the bottom row and the last
  column of the matrix are \<open>(0, 0, 1)\<close>, each entry to within the tolerance.
\<close>

definition homogeneousWithin :: "real \<Rightarrow> QTransform \<Rightarrow> bool" where
  "homogeneousWithin tol t \<longleftrightarrow>
     \<bar>m31 t\<bar> < tol \<and> \<bar>m32 t\<bar> < tol \<and> \<bar>m33 t - 1\<bar> < tol \<and> \<bar>m13 t\<bar> < tol \<and> \<bar>m23 t\<bar> < tol"

definition linearDet :: "QTransform \<Rightarrow> real" where
  "linearDet t = det2 (m11 t) (m12 t) (m21 t) (m22 t)"

subsection \<open>Concrete items and collaborators\<close>

definition example_ds :: Dataset where
  "example_ds = \<lparr>RasterXSize = 6000\<rparr>"

definition example_item :: AerialImage where
  "example_item =
     \<lparr>pos = (10, 20), transform = QTransform6 1 0 0 1 0 0, offset = (- 1500, - 1000),
      opacity = 1, attr_opacity = 1, availability = Some image, transformState = original,
      isMovable = True, hasFocus = True, point_pos = (10, 20), overlays = [],
      row = \<lparr>scenePos = (10, 20), trafo = QTransform6 1 0 0 1 0 0, trafoLocked = False,
             path = Some ''0001/0001.ecw'', previewRect = None\<rparr>,
      log = []\<rparr>"

text \<open>A result of the matcher that doubles the scale and moves the item by \<open>(3, 4)\<close>.\<close>

definition example_refined :: GdalTrafo where
  "example_refined = \<lparr>g00 = - 2987, g01 = 1, g02 = 0, g10 = 1976, g11 = 0, g12 = - 1\<rparr>"

text \<open>A result of the matcher that keeps the linear part and moves the item by \<open>(3, 4)\<close>.\<close>

definition example_shifted :: GdalTrafo where
  "example_shifted = \<lparr>g00 = - 1487, g01 = 1 / 2, g02 = 0, g10 = 976, g11 = 0, g12 = - (1 / 2)\<rparr>"

definition example_env :: georef_env where
  "example_env =
     \<lparr>gdal_Open = (\<lambda>p. Some example_ds),
      georef = (\<lambda>ds g. GeorefReturns example_refined [(0, 0)] [(2, 4)]),
      views = [QTransform6 1 0 0 1 0 0],
      button = No\<rparr>"

definition example_env_raises :: georef_env where
  "example_env_raises = example_env\<lparr>georef := (\<lambda>ds g. GeorefRaises)\<rparr>"

definition example_env_shift :: georef_env where
  "example_env_shift =
     example_env\<lparr>georef := (\<lambda>ds g. GeorefReturns example_shifted [(0, 0)] [(2, 4)])\<rparr>"

text \<open>
  The same item with a preview crop in its row, with a translation entry that is the
  bound of the assertions, and with a transform that is not affine.
\<close>

definition example_preview_item :: AerialImage where
  "example_preview_item =
     example_item\<lparr>row := (row example_item)\<lparr>previewRect := Some ''[0, 0, 800, 600, 0]''\<rparr>\<rparr>"

definition example_boundary_item :: AerialImage where
  "example_boundary_item =
     example_item\<lparr>transform := (transform example_item)\<lparr>m31 := double_1e_7\<rparr>\<rparr>"

definition example_projective_item :: AerialImage where
  "example_projective_item =
     example_item\<lparr>transform := (transform example_item)\<lparr>m13 := 1 / 1000\<rparr>\<rparr>"

text \<open>
  A result of the matcher that scales the item by \<open>257 / 256\<close>, which is
  \<open>1.00390625\<close>, and leaves it where it is, and one that keeps the linear part and moves
  the item by \<open>1 / 256\<close> to the right. All the numbers are binary fractions, so the
  doubles of the code hold them and the results of its arithmetic on them exactly.
\<close>

definition example_scaled :: GdalTrafo where
  "example_scaled =
     \<lparr>g00 = 10 - 1500 * (257 / 256), g01 = 257 / 512, g02 = 0,
      g10 = 1000 * (257 / 256) - 20, g11 = 0, g12 = - (257 / 512)\<rparr>"

definition example_nudged :: GdalTrafo where
  "example_nudged =
     \<lparr>g00 = - 1490 + 1 / 256, g01 = 1 / 2, g02 = 0, g10 = 980, g11 = 0, g12 = - (1 / 2)\<rparr>"

definition example_env_scaled :: georef_env where
  "example_env_scaled =
     example_env\<lparr>georef := (\<lambda>ds g. GeorefReturns example_scaled [(0, 0)] [(2, 4)])\<rparr>"

definition example_env_nudged :: georef_env where
  "example_env_nudged =
     example_env\<lparr>georef := (\<lambda>ds g. GeorefReturns example_nudged [(0, 0)] [(2, 4)])\<rparr>"

text \<open>
  One notch of the wheel, a zoom by \<open>1.1\<close>: with the cursor well inside the image, and
  with the cursor very near the origin of the item.
\<close>

definition example_wheel :: wheel_event where
  "example_wheel =
     \<lparr>delta = 120, shiftModifier = False, altModifier = False, controlModifier = False,
      event_pos = (100, 50)\<rparr>"

definition example_wheel_near :: wheel_event where
  "example_wheel_near = example_wheel\<lparr>event_pos := (1 / 2 ^ 37, 1 / 2 ^ 36)\<rparr>"

lemmas example_defs =
  example_ds_def example_item_def example_refined_def example_shifted_def example_env_def
  example_env_raises_def example_env_shift_def example_preview_item_def
  example_boundary_item_def
  example_projective_item_def example_scaled_def example_nudged_def example_env_scaled_def
  example_env_nudged_def example_wheel_def example_wheel_near_def

lemmas qtransform_defs =
  QTransform6_def fromTranslate_def fromScale_def mul_def scale_by_def rotate_by_def
  translate_by_def isAffine_def map_point_def determinant_def

lemmas item_defs =
  setMovability_def setTransformState_def setPos_def setTransform_def moveBy_def
  sceneTransform_def mapToScene_def deviceTransform_def pixMapWidth_def

lemmas fuzzy_defs = QPointF_eq_def qFuzzyIsNull_def qFuzzyCompare_def double_1e_12_def

lemmas format_defs = format_2f_def round_half_even_def

lemmas georeference_defs =
  georeference_def prepare_def presentResult_def bottomRowOk_def lastColumnOk_def
  initialGdalTrafo_def scaleLinear_def flipRow1_def toDisplay_def newPosOf_def newTrOf_def
  shiftOf_def scaleOf_def det2_def np_div_def np_sqrt_def double_1e_7_def

subsection \<open>Requesting and receiving pixmaps\<close>

text \<open>
  \<^verbatim>\<open>__requestPixMap\<close>, \<^verbatim>\<open>__pixMapReady\<close>, \<^verbatim>\<open>paint\<close> and their callers, on
  the part of the item they use. The decoding runs in a \<^verbatim>\<open>ThreadPoolExecutor\<close>; a
  future is named by its index among the futures submitted, and the pool is the list of
  their states. \<^verbatim>\<open>ContrastEnhancement\<close> is declared outside the files at hand: the
  two members named at line 351 stand for it.
\<close>

datatype ContrastEnhancement = clahe | histogram

datatype future_state = PENDING | RUNNING | FINISHED | CANCELLED

type_synonym QRect = "int \<times> int \<times> int \<times> int"

type_synonym pixmap_params = "string option \<times> QRect \<times> int \<times> ContrastEnhancement"

record pixmap_cell =
  isVisible :: bool
  cell_availability :: "Availability option"
  cell_path :: "string option"
  cell_previewRect :: "(int \<times> int \<times> int \<times> int \<times> int) option"
  currentContrast :: ContrastEnhancement
  requestedPixMapParams :: "pixmap_params option"
  lastRequestedFuture :: "nat option"
  futurePixmap :: "nat option"
  threadPool :: "future_state list"
  pixmaps :: "nat list"

datatype gui_outcome = Completed | Hangs | Fails exn

text \<open>
  Lines 617 to 624 and 626: the parameters of a request. A row without a preview rectangle
  gives the null \<^verbatim>\<open>QRect()\<close> and no rotation.
\<close>

definition currentParams :: "pixmap_cell \<Rightarrow> pixmap_params" where
  "currentParams c =
     (case cell_previewRect c of
        None \<Rightarrow> (cell_path c, (0, 0, 0, 0), 0, currentContrast c)
      | Some (l, t, w, h, rotationCcw) \<Rightarrow> (cell_path c, (l, t, w, h), rotationCcw, currentContrast c))"

text \<open>
  \<^verbatim>\<open>Future.cancel()\<close> of \<^verbatim>\<open>concurrent.futures\<close>: a future that is running or
  finished cannot be cancelled; a pending one becomes cancelled, and then its done
  callbacks run, in the thread that called \<^verbatim>\<open>cancel\<close>, before \<^verbatim>\<open>cancel\<close> returns.
  A future that was cancelled before gives \<^verbatim>\<open>True\<close> without running callbacks; no such
  future is ever the last requested one here, so the model does not tell it apart.
\<close>

definition cancel :: "nat \<Rightarrow> future_state list \<Rightarrow> bool \<times> future_state list" where
  "cancel f fs = (if fs ! f = PENDING then (True, fs[f := CANCELLED]) else (False, fs))"

text \<open>
  Lines 616 to 637. The new future is pending when its callback is added. Lines 633 to 636
  call \<^verbatim>\<open>cancel\<close> on the future requested before while holding
  \<^verbatim>\<open>__lastRequestedFutureLock\<close>. When that future is still pending, \<^verbatim>\<open>cancel\<close> runs
  its done callback \<^verbatim>\<open>__pixMapReady\<close> at once in the same thread, and the first statement
  of the callback acquires the same lock, a \<^verbatim>\<open>threading.Lock\<close>, which is not reentrant:
  the thread waits for itself, and the method never returns. That is the outcome
  \<open>Hangs\<close>.
\<close>

definition requestPixMap :: "pixmap_cell \<Rightarrow> gui_outcome \<times> pixmap_cell" where
  "requestPixMap c =
     (let params = currentParams c
      in if (cell_availability c = Some preview \<or> cell_availability c = Some image) \<and>
            (requestedPixMapParams c = None \<or> requestedPixMapParams c \<noteq> Some params)
         then (case cell_path c of
                 None \<Rightarrow> (Fails TypeError, c)
               | Some p \<Rightarrow>
                   (let future = length (threadPool c);
                        c1 = c\<lparr>threadPool := threadPool c @ [PENDING]\<rparr>
                    in case lastRequestedFuture c1 of
                         None \<Rightarrow>
                           (Completed, c1\<lparr>lastRequestedFuture := Some future,
                                           requestedPixMapParams := Some params\<rparr>)
                       | Some previous \<Rightarrow>
                           (case cancel previous (threadPool c1) of
                              (True, fs) \<Rightarrow> (Hangs, c1\<lparr>threadPool := fs\<rparr>)
                            | (False, fs) \<Rightarrow>
                                (Completed, c1\<lparr>threadPool := fs, lastRequestedFuture := Some future,
                                                requestedPixMapParams := Some params\<rparr>))))
         else (Completed, c\<lparr>requestedPixMapParams := Some params\<rparr>))"

text \<open>
  Lines 639 to 650, the done callback, and lines 567 to 573 of \<^verbatim>\<open>paint\<close>, which
  applies the pixmap of the future in the cell and empties the cell. The decoding itself
  is taken to succeed.
\<close>

definition pixMapReady :: "nat \<Rightarrow> pixmap_cell \<Rightarrow> pixmap_cell" where
  "pixMapReady future c =
     (if lastRequestedFuture c \<noteq> Some future then c else c\<lparr>futurePixmap := Some future\<rparr>)"

definition paint :: "pixmap_cell \<Rightarrow> pixmap_cell" where
  "paint c =
     (case futurePixmap c of
        None \<Rightarrow> c
      | Some f \<Rightarrow> c\<lparr>futurePixmap := None, pixmaps := pixmaps c @ [f]\<rparr>)"

text \<open>
  The two callers: lines 652 to 655, and \<^verbatim>\<open>itemChange\<close> (lines 397 to 399) when the
  item becomes visible.
\<close>

definition setContrastEnhancement :: "ContrastEnhancement \<Rightarrow> pixmap_cell \<Rightarrow> gui_outcome \<times> pixmap_cell" where
  "setContrastEnhancement contrast c =
     (let c1 = c\<lparr>currentContrast := contrast\<rparr>
      in if isVisible c1 then requestPixMap c1 else (Completed, c1))"

definition setVisible :: "bool \<Rightarrow> pixmap_cell \<Rightarrow> gui_outcome \<times> pixmap_cell" where
  "setVisible v c =
     (if isVisible c = v then (Completed, c)
      else if v then requestPixMap (c\<lparr>isVisible := v\<rparr>) else (Completed, c\<lparr>isVisible := v\<rparr>))"

text \<open>
  A schedule is a list of events: calls in the GUI thread, a worker taking a pending
  future, a worker finishing a running one (which runs the done callback), and a repaint.
  Each event is one step; a schedule stops at the first call that does not complete.
\<close>

datatype event =
    SetVisible bool
  | SetContrastEnhancement ContrastEnhancement
  | WorkerStarts nat
  | WorkerFinishes nat
  | Paint

fun step :: "event \<Rightarrow> pixmap_cell \<Rightarrow> gui_outcome \<times> pixmap_cell" where
  "step (SetVisible v) c = setVisible v c"
| "step (SetContrastEnhancement contrast) c = setContrastEnhancement contrast c"
| "step (WorkerStarts f) c =
     (Completed, if threadPool c ! f = PENDING then c\<lparr>threadPool := (threadPool c)[f := RUNNING]\<rparr> else c)"
| "step (WorkerFinishes f) c =
     (Completed, if threadPool c ! f = RUNNING
                 then pixMapReady f (c\<lparr>threadPool := (threadPool c)[f := FINISHED]\<rparr>) else c)"
| "step Paint c = (Completed, paint c)"

fun run :: "event list \<Rightarrow> pixmap_cell \<Rightarrow> gui_outcome \<times> pixmap_cell" where
  "run [] c = (Completed, c)"
| "run (e # es) c =
     (case step e c of
        (Completed, c1) \<Rightarrow> run es c1
      | (r, c1) \<Rightarrow> (r, c1))"

definition example_cell :: pixmap_cell where
  "example_cell =
     \<lparr>isVisible = False, cell_availability = Some image, cell_path = Some ''0001/0001.ecw'',
      cell_previewRect = None, currentContrast = clahe, requestedPixMapParams = None,
      lastRequestedFuture = None, futurePixmap = None, threadPool = [], pixmaps = []\<rparr>"

lemmas pixmap_defs =
  currentParams_def cancel_def requestPixMap_def pixMapReady_def paint_def
  setContrastEnhancement_def setVisible_def example_cell_def

section \<open>Properties of the georeferencing call\<close>

subsection \<open>What the setters keep\<close>

lemma setTransformState_keeps [simp]:
  "pos (setTransformState ts s) = pos s"
  "transform (setTransformState ts s) = transform s"
  "log (setTransformState ts s) = log s"
  "overlays (setTransformState ts s) = overlays s"
  "offset (setTransformState ts s) = offset s"
  by (simp_all add: setTransformState_def setMovability_def Let_def)

text \<open>Qt's equality of points is reflexive and symmetric.\<close>

lemma QPointF_eq_refl [simp]: "QPointF_eq p p"
  by (simp add: fuzzy_defs)

lemma QPointF_eq_sym: "QPointF_eq p q = QPointF_eq q p"
  by (simp add: QPointF_eq_def qFuzzyIsNull_def qFuzzyCompare_def abs_minus_commute
      min.commute disj_commute)

text \<open>The positions of the examples are far from each other.\<close>

lemma example_positions_differ [simp]:
  "\<not> QPointF_eq (10, 20) (13, 24)"
  "\<not> QPointF_eq (13, 24) (10, 20)"
  by (simp_all add: fuzzy_defs)

lemma setPos_fields [simp]:
  "pos (setPos v s) = (if QPointF_eq (pos s) v then pos s else v)"
  "transform (setPos v s) = transform s"
  "log (setPos v s) = log s"
  "offset (setPos v s) = offset s"
  "overlays (setPos v s) = overlays s"
  by (simp_all add: setPos_def)

lemma setTransform_fields [simp]:
  "transform (setTransform v s) = v"
  "pos (setTransform v s) = pos s"
  "log (setTransform v s) = log s"
  "offset (setTransform v s) = offset s"
  "overlays (setTransform v s) = overlays s"
  by (simp_all add: setTransform_def)

subsection \<open>Failures of the matcher\<close>

text \<open>
  The transform that the example item hands to the matcher, computed once: the raster is
  twice as wide as the pixmap, so the linear part is halved, and row 1 is negated.
\<close>

lemma prepare_example:
  "prepare example_env_raises example_item =
     Inr (example_ds,
          \<lparr>g00 = - 1490, g01 = 1 / 2, g02 = 0, g10 = 980, g11 = 0, g12 = - (1 / 2)\<rparr>)"
  by (simp add: example_defs georeference_defs item_defs qtransform_defs Let_def)

lemma georef_example_raises: "georef example_env_raises ds g = GeorefRaises"
  by (simp add: example_defs)




text \<open>
  Claim C3: when the matcher raises, the call leaves the position and the transform of the
  image exactly as they were (and with them the row of the database and the position of
  the point), and it ends by returning, not by an exception that leaves the method.
\<close>

theorem georeference_matcher_failure_atomic:
  assumes "prepare env s = Inr (ds, g)" and "georef env ds g = GeorefRaises"
  shows "fst (georeference env s) = Returned \<and>
         pos (snd (georeference env s)) = pos s \<and>
         transform (snd (georeference env s)) = transform s \<and>
         row (snd (georeference env s)) = row s \<and>
         point_pos (snd (georeference env s)) = point_pos s"
  using assms by (simp add: georeference_def)

theorem georeference_matcher_failure_atomic_witness:
  "prepare example_env_raises example_item =
     Inr (example_ds,
          \<lparr>g00 = - 1490, g01 = 1 / 2, g02 = 0, g10 = 980, g11 = 0, g12 = - (1 / 2)\<rparr>) \<and>
   georef example_env_raises example_ds
     \<lparr>g00 = - 1490, g01 = 1 / 2, g02 = 0, g10 = 980, g11 = 0, g12 = - (1 / 2)\<rparr> = GeorefRaises \<and>
   fst (georeference example_env_raises example_item) = Returned \<and>
   pos (snd (georeference example_env_raises example_item)) = pos example_item \<and>
   transform (snd (georeference example_env_raises example_item)) = transform example_item \<and>
   row (snd (georeference example_env_raises example_item)) = row example_item \<and>
   point_pos (snd (georeference example_env_raises example_item)) = point_pos example_item"
  using prepare_example georef_example_raises
    georeference_matcher_failure_atomic [OF prepare_example georef_example_raises]
  by simp

subsection \<open>The preview cycle\<close>

text \<open>
  Putting back the position that was read before the move: either the move did nothing,
  and putting back does nothing, or the move was made, and so is the move back, because
  Qt's equality of points is symmetric.
\<close>

lemma presentResult_reject:
  assumes "button env = No"
  shows "pos (snd (presentResult env s ds g aPts oPts)) = pos s \<and>
         transform (snd (presentResult env s ds g aPts oPts)) = transform s"
proof (cases "views env")
  case Nil
  then show ?thesis by (simp add: presentResult_def Let_def)
next
  case (Cons vt vs)
  show ?thesis
  proof (cases "determinant (deviceTransform s vt) = 0 \<or>
                determinant (deviceTransform s vt) < 0 \<or> length aPts \<noteq> length oPts")
    case True
    with Cons show ?thesis
      by (auto simp add: presentResult_def Let_def toDisplay_def)
  next
    case False
    with assms Cons show ?thesis
      by (simp add: presentResult_def Let_def toDisplay_def QPointF_eq_sym [of _ "pos s"])
  qed
qed

text \<open>
  Claim C2: for every image, whatever its position and transform, a call in which the user
  rejects the result ends with the position and the transform it started with. The values
  put back are the ones read at the start of the call, not recomputed ones.
\<close>

theorem georeference_reject_restores:
  assumes "button env = No"
  shows "pos (snd (georeference env s)) = pos s \<and>
         transform (snd (georeference env s)) = transform s"
  using assms
  by (simp add: georeference_def presentResult_reject
           split: sum.splits prod.splits georef_result.splits)

theorem georeference_reject_restores_witness:
  "button example_env = No \<and>
   log (snd (georeference example_env example_item)) = [LogInfo 1 500 (Some 200)] \<and>
   pos (snd (georeference (example_env\<lparr>button := Yes\<rparr>) example_item)) = (13, 24) \<and>
   pos (snd (georeference example_env example_item)) = pos example_item \<and>
   transform (snd (georeference example_env example_item)) = transform example_item"
proof -
  have b: "button example_env = No"
    by (simp add: example_env_def)
  have l: "log (snd (georeference example_env example_item)) = [LogInfo 1 500 (Some 200)]"
    by (simp add: example_defs georeference_defs item_defs qtransform_defs format_defs Let_def)
  have y: "pos (snd (georeference (example_env\<lparr>button := Yes\<rparr>) example_item)) = (13, 24)"
    by (simp add: example_defs georeference_defs item_defs qtransform_defs Let_def)
  show ?thesis
    using b l y georeference_reject_restores [OF b, of example_item] by simp
qed

subsection \<open>Preconditions\<close>

text \<open>
  Claim C4: for every image whose row holds a preview rectangle, the call fails with an
  \<^verbatim>\<open>AssertionError\<close> and leaves the whole item, the row of the database included, as
  it was.
\<close>

theorem georeference_preview_rejected:
  assumes "previewRect (row s) \<noteq> None"
  shows "\<exists>site. georeference env s = (Raised (AssertionError site), s)"
  using assms by (auto simp add: georeference_def prepare_def Let_def)

theorem georeference_preview_rejected_witness:
  "previewRect (row example_preview_item) \<noteq> None \<and>
   georeference example_env example_preview_item =
     (Raised (AssertionError PreviewRectIsNone), example_preview_item) \<and>
   (\<exists>site. georeference example_env example_preview_item =
     (Raised (AssertionError site), example_preview_item))"
proof -
  have p: "previewRect (row example_preview_item) \<noteq> None"
    by (simp add: example_defs)
  have e: "georeference example_env example_preview_item =
     (Raised (AssertionError PreviewRectIsNone), example_preview_item)"
    by (simp add: example_defs georeference_defs item_defs qtransform_defs Let_def)
  show ?thesis
    using p e georeference_preview_rejected [OF p, of example_env] by simp
qed

text \<open>
  The two assertions of the code take the largest deviation of a row and of a column; the
  specification bounds each entry. The two say the same.
\<close>

lemma homogeneousWithin_iff:
  "homogeneousWithin double_1e_7 tr \<longleftrightarrow> bottomRowOk tr \<and> lastColumnOk tr"
  unfolding homogeneousWithin_def bottomRowOk_def lastColumnOk_def max_less_iff_conj diff_zero
  by blast

lemma prepare_transform_sites:
  "prepare env s = Inl (AssertionError BottomRow) \<longleftrightarrow> \<not> bottomRowOk (transform s)"
  "prepare env s = Inl (AssertionError LastColumn) \<longleftrightarrow>
     bottomRowOk (transform s) \<and> \<not> lastColumnOk (transform s)"
  by (auto simp add: prepare_def Let_def split: option.splits)

lemma presentResult_not_assertion:
  "fst (presentResult env s ds g aPts oPts) \<noteq> Raised (AssertionError site)"
  by (simp add: presentResult_def Let_def split: list.splits)

lemma georeference_assertion_iff:
  "fst (georeference env s) = Raised (AssertionError site) \<longleftrightarrow>
     prepare env s = Inl (AssertionError site)"
  using presentResult_not_assertion
  by (auto simp add: georeference_def split: sum.splits prod.splits georef_result.splits)

lemma georeference_raised_state:
  "prepare env s = Inl e \<Longrightarrow> georeference env s = (Raised e, s)"
  by (simp add: georeference_def)

text \<open>
  The bound of the assertions is the double nearest to one ten-millionth, which is a
  little less than one ten-millionth; no double lies between the two.
\<close>

lemma double_1e_7_near:
  "double_1e_7 < 1 / 10 ^ 7"
  "1 / 10 ^ 7 - double_1e_7 < 1 / 10 ^ 23"
  by (simp_all add: double_1e_7_def)

text \<open>
  Claim C8: the call fails at one of its two assertions on the transform, leaving the item
  as it was, exactly when the bottom row or the last column of the transform is not
  \<open>(0, 0, 1)\<close> to within \<open>1e-7\<close>: an entry is within the tolerance when its distance
  from 0 or 1 is less than the double that \<^verbatim>\<open>1.e-7\<close> denotes. So a transform outside
  the tolerance is never accepted, and for a transform inside it these two assertions
  cannot fail.
\<close>

theorem georeference_transform_precondition:
  "(georeference env s = (Raised (AssertionError BottomRow), s) \<or>
    georeference env s = (Raised (AssertionError LastColumn), s))
   \<longleftrightarrow> \<not> homogeneousWithin double_1e_7 (transform s)"
proof
  assume "georeference env s = (Raised (AssertionError BottomRow), s) \<or>
    georeference env s = (Raised (AssertionError LastColumn), s)"
  then have "fst (georeference env s) = Raised (AssertionError BottomRow) \<or>
    fst (georeference env s) = Raised (AssertionError LastColumn)"
    by auto
  then show "\<not> homogeneousWithin double_1e_7 (transform s)"
    unfolding homogeneousWithin_iff georeference_assertion_iff prepare_transform_sites
    by blast
next
  assume "\<not> homogeneousWithin double_1e_7 (transform s)"
  then have "prepare env s = Inl (AssertionError BottomRow) \<or>
    prepare env s = Inl (AssertionError LastColumn)"
    unfolding homogeneousWithin_iff prepare_transform_sites by blast
  then show "georeference env s = (Raised (AssertionError BottomRow), s) \<or>
    georeference env s = (Raised (AssertionError LastColumn), s)"
    by (auto dest: georeference_raised_state)
qed

theorem georeference_transform_precondition_witness:
  "homogeneousWithin double_1e_7 (transform example_item) \<and>
   georeference example_env example_item \<noteq> (Raised (AssertionError BottomRow), example_item) \<and>
   georeference example_env example_item \<noteq> (Raised (AssertionError LastColumn), example_item) \<and>
   \<not> homogeneousWithin double_1e_7 (transform example_projective_item) \<and>
   georeference example_env example_projective_item =
     (Raised (AssertionError LastColumn), example_projective_item) \<and>
   m31 (transform example_boundary_item) = double_1e_7 \<and>
   \<not> homogeneousWithin double_1e_7 (transform example_boundary_item) \<and>
   georeference example_env example_boundary_item =
     (Raised (AssertionError BottomRow), example_boundary_item)"
proof -
  have h: "homogeneousWithin double_1e_7 (transform example_item)"
    by (simp add: example_defs homogeneousWithin_def QTransform6_def double_1e_7_def)
  have n: "\<not> homogeneousWithin double_1e_7 (transform example_projective_item)"
    by (simp add: example_defs homogeneousWithin_def QTransform6_def double_1e_7_def)
  have b: "georeference example_env example_projective_item \<noteq>
     (Raised (AssertionError BottomRow), example_projective_item)"
    by (simp add: example_defs georeference_defs item_defs qtransform_defs Let_def)
  have m: "m31 (transform example_boundary_item) = double_1e_7"
    by (simp add: example_defs)
  have nb: "\<not> homogeneousWithin double_1e_7 (transform example_boundary_item)"
    by (simp add: homogeneousWithin_def m)
  have bl: "georeference example_env example_boundary_item \<noteq>
     (Raised (AssertionError LastColumn), example_boundary_item)"
    by (simp add: georeference_def prepare_def bottomRowOk_def m Let_def)
  show ?thesis
    using h n b m nb bl georeference_transform_precondition [of example_env example_item]
      georeference_transform_precondition [of example_env example_projective_item]
      georeference_transform_precondition [of example_env example_boundary_item]
    by simp
qed

subsection \<open>The diagnostics\<close>

text \<open>
  The text with two decimals denotes a number that is at most half a hundredth away from
  the number formatted.
\<close>

lemma round_half_even_near: "\<bar>real_of_int (round_half_even y) - y\<bar> \<le> 1 / 2"
  unfolding round_half_even_def Let_def by (auto; linarith)

lemma format_2f_near: "\<bar>real_of_int (format_2f x) / 100 - x\<bar> \<le> 1 / 200"
  using round_half_even_near [of "x * 100"] by (simp add: format_2f_def field_simps)

text \<open>
  The button does not decide whether the call returns, and a call that returns after the
  matcher has returned has logged the three messages, computed from the array of lines
  793 and 794.
\<close>

lemma prepare_button [simp]: "prepare (env\<lparr>button := b\<rparr>) s = prepare env s"
  by (simp add: prepare_def Let_def cong: option.case_cong if_cong)

lemma presentResult_outcome_button:
  "fst (presentResult (env\<lparr>button := b\<rparr>) s ds g aPts oPts) =
   fst (presentResult env s ds g aPts oPts)"
  by (simp add: presentResult_def Let_def split: list.splits)

lemma presentResult_returned:
  assumes "fst (presentResult env s ds g aPts oPts) = Returned"
  shows "log (snd (presentResult env s ds g aPts oPts)) =
           log s @ [LogInfo (length aPts)
                      (format_2f (shiftOf (pos s) (newPosOf (refinedTrafo ds g) (offset s))))
                      (map_option format_2f (scaleOf (refinedTrafo ds g) (transform s)))]"
    and "button env = Yes \<Longrightarrow>
         transform (snd (presentResult env s ds g aPts oPts)) = newTrOf (refinedTrafo ds g)"
    and "button env = Yes \<Longrightarrow>
         pos (snd (presentResult env s ds g aPts oPts)) =
           (if QPointF_eq (pos s) (newPosOf (refinedTrafo ds g) (offset s)) then pos s
            else newPosOf (refinedTrafo ds g) (offset s))"
proof -
  obtain vt vs where v: "views env = vt # vs"
    using assms by (cases "views env") (simp_all add: presentResult_def Let_def)
  have d: "determinant (deviceTransform s vt) \<noteq> 0"
    "\<not> determinant (deviceTransform s vt) < 0"
    using assms v by (auto simp add: presentResult_def Let_def split: if_splits)
  have l: "length aPts = length oPts"
    using assms v d by (auto simp add: presentResult_def Let_def toDisplay_def split: if_splits)
  show "log (snd (presentResult env s ds g aPts oPts)) =
           log s @ [LogInfo (length aPts)
                      (format_2f (shiftOf (pos s) (newPosOf (refinedTrafo ds g) (offset s))))
                      (map_option format_2f (scaleOf (refinedTrafo ds g) (transform s)))]"
    using v d l by (simp add: presentResult_def Let_def toDisplay_def refinedTrafo_def)
  show "button env = Yes \<Longrightarrow>
         transform (snd (presentResult env s ds g aPts oPts)) = newTrOf (refinedTrafo ds g)"
    using v d l by (simp add: presentResult_def Let_def toDisplay_def refinedTrafo_def)
  show "button env = Yes \<Longrightarrow>
         pos (snd (presentResult env s ds g aPts oPts)) =
           (if QPointF_eq (pos s) (newPosOf (refinedTrafo ds g) (offset s)) then pos s
            else newPosOf (refinedTrafo ds g) (offset s))"
    using v d l by (simp add: presentResult_def Let_def toDisplay_def refinedTrafo_def)
qed

lemma georeference_matched:
  assumes "prepare env s = Inr (ds, g0)" and "georef env ds g0 = GeorefReturns g aPts oPts"
  shows "georeference env s = presentResult env s ds g aPts oPts"
    and "georeference (env\<lparr>button := b\<rparr>) s =
           presentResult (env\<lparr>button := b\<rparr>) s ds g aPts oPts"
  using assms by (simp_all add: georeference_def)

lemma linearDet_newTrOf: "linearDet (newTrOf g) = det2 (g01 g) (g11 g) (g02 g) (g12 g)"
  by (simp add: linearDet_def newTrOf_def QTransform6_def)

lemma scaleOf_linearDet:
  "scaleOf g tr = np_sqrt (np_div (linearDet (newTrOf g)) (linearDet tr))"
  by (simp add: scaleOf_def linearDet_newTrOf) (simp add: linearDet_def)

lemma uniform_scale_det:
  assumes "m11 new = k * m11 old" "m12 new = k * m12 old"
    "m21 new = k * m21 old" "m22 new = k * m22 old"
  shows "linearDet new = k\<^sup>2 * linearDet old"
  using assms by (simp add: linearDet_def det2_def power2_eq_square algebra_simps)

lemma np_sqrt_uniform:
  assumes "0 \<le> k" "d \<noteq> 0"
  shows "np_sqrt (np_div (k\<^sup>2 * d) d) = Some k"
  using assms by (simp add: np_sqrt_def np_div_def)

text \<open>The runs of the examples that the statements below use.\<close>

lemma prepare_example_env:
  "prepare example_env example_item =
     Inr (example_ds,
          \<lparr>g00 = - 1490, g01 = 1 / 2, g02 = 0, g10 = 980, g11 = 0, g12 = - (1 / 2)\<rparr>)"
  "prepare example_env_shift example_item =
     Inr (example_ds,
          \<lparr>g00 = - 1490, g01 = 1 / 2, g02 = 0, g10 = 980, g11 = 0, g12 = - (1 / 2)\<rparr>)"
  "prepare example_env_scaled example_item =
     Inr (example_ds,
          \<lparr>g00 = - 1490, g01 = 1 / 2, g02 = 0, g10 = 980, g11 = 0, g12 = - (1 / 2)\<rparr>)"
  "prepare example_env_nudged example_item =
     Inr (example_ds,
          \<lparr>g00 = - 1490, g01 = 1 / 2, g02 = 0, g10 = 980, g11 = 0, g12 = - (1 / 2)\<rparr>)"
  by (simp_all add: example_defs georeference_defs item_defs qtransform_defs Let_def)

lemma example_fuzzy_nudged [simp]:
  "\<not> QPointF_eq (10, 20) (2561 / 256, 20)"
  "\<not> QPointF_eq (2561 / 256, 20) (10, 20)"
  by (simp_all add: fuzzy_defs)

lemma sqrt_example_scaled: "sqrt (66049 / 65536) = 257 / 256"
  by (rule real_sqrt_unique) (simp_all add: power2_eq_square)

text \<open>
  Claim C6, as the specification states it: for a uniform change of scale by \<open>k\<close> the
  scale that the call reports is \<open>k\<close> to within \<open>1e-6\<close>. The code does otherwise: the
  matcher scales the example item by \<open>k = 257 / 256\<close>, and the call reports the text
  \<^verbatim>\<open>1.00\<close>, which is off by \<open>1 / 256\<close>.
\<close>

theorem georeference_scale_two_decimals:
  "transform example_item = QTransform6 1 0 0 1 0 0 \<and>
   transform (snd (georeference (example_env_scaled\<lparr>button := Yes\<rparr>) example_item)) =
     QTransform6 (257 / 256) 0 0 (257 / 256) 0 0 \<and>
   log (snd (georeference example_env_scaled example_item)) = [LogInfo 1 0 (Some 100)] \<and>
   1 / 10 ^ 6 < \<bar>real_of_int 100 / 100 - 257 / 256\<bar>"
  by (simp add: example_defs georeference_defs item_defs qtransform_defs format_defs Let_def
      sqrt_example_scaled)

text \<open>
  Claim C6, amended. A call that returns after the matcher has returned reports the scale
  as a text with two decimals, and no other way. The scale is the square root of the
  determinant of the linear part of the new transform (the one built at line 797, which
  the item has when the user accepts) divided by the determinant of the linear part of the
  old one. The text denotes the number with two decimals nearest to it, computed here in
  exact arithmetic; when the new linear part is \<open>k\<close> times the old one, with \<open>k\<close> not
  negative and the old transform invertible, the text is that of \<open>k\<close>, which is within
  \<open>0.005\<close> of \<open>k\<close>.
\<close>

theorem georeference_scale_report:
  assumes "prepare env s = Inr (ds, g0)"
    and "georef env ds g0 = GeorefReturns g aPts oPts"
    and "fst (georeference env s) = Returned"
  shows "\<exists>n shift scale.
           log (snd (georeference env s)) = log s @ [LogInfo n shift scale] \<and>
           transform (snd (georeference (env\<lparr>button := Yes\<rparr>) s)) =
             newTrOf (refinedTrafo ds g) \<and>
           scale = map_option format_2f
                     (np_sqrt (np_div (linearDet (newTrOf (refinedTrafo ds g)))
                                      (linearDet (transform s)))) \<and>
           (\<forall>k. 0 \<le> k \<and> linearDet (transform s) \<noteq> 0 \<and>
                m11 (newTrOf (refinedTrafo ds g)) = k * m11 (transform s) \<and>
                m12 (newTrOf (refinedTrafo ds g)) = k * m12 (transform s) \<and>
                m21 (newTrOf (refinedTrafo ds g)) = k * m21 (transform s) \<and>
                m22 (newTrOf (refinedTrafo ds g)) = k * m22 (transform s)
                \<longrightarrow> scale = Some (format_2f k) \<and>
                    \<bar>real_of_int (format_2f k) / 100 - k\<bar> \<le> 1 / 200)"
proof -
  have r: "fst (presentResult env s ds g aPts oPts) = Returned"
    using assms by (simp add: georeference_matched)
  have ry: "fst (presentResult (env\<lparr>button := Yes\<rparr>) s ds g aPts oPts) = Returned"
    using r by (simp add: presentResult_outcome_button)
  have l: "log (snd (georeference env s)) =
      log s @ [LogInfo (length aPts)
                 (format_2f (shiftOf (pos s) (newPosOf (refinedTrafo ds g) (offset s))))
                 (map_option format_2f (scaleOf (refinedTrafo ds g) (transform s)))]"
    using presentResult_returned(1) [OF r] assms by (simp add: georeference_matched)
  have t: "transform (snd (georeference (env\<lparr>button := Yes\<rparr>) s)) = newTrOf (refinedTrafo ds g)"
    using presentResult_returned(2) [OF ry] assms by (simp add: georeference_matched)
  have u: "scale = Some (format_2f k) \<and> \<bar>real_of_int (format_2f k) / 100 - k\<bar> \<le> 1 / 200"
    if h: "0 \<le> k \<and> linearDet (transform s) \<noteq> 0 \<and>
           m11 (newTrOf (refinedTrafo ds g)) = k * m11 (transform s) \<and>
           m12 (newTrOf (refinedTrafo ds g)) = k * m12 (transform s) \<and>
           m21 (newTrOf (refinedTrafo ds g)) = k * m21 (transform s) \<and>
           m22 (newTrOf (refinedTrafo ds g)) = k * m22 (transform s)"
      and sc: "scale = map_option format_2f
                     (np_sqrt (np_div (linearDet (newTrOf (refinedTrafo ds g)))
                                      (linearDet (transform s))))"
    for k scale
  proof -
    from h have "linearDet (newTrOf (refinedTrafo ds g)) = k\<^sup>2 * linearDet (transform s)"
      by (intro uniform_scale_det) simp_all
    moreover from h have "0 \<le> k" and "linearDet (transform s) \<noteq> 0"
      by simp_all
    ultimately have "scale = Some (format_2f k)"
      using sc by (simp add: np_sqrt_uniform)
    with format_2f_near [of k] show ?thesis by simp
  qed
  show ?thesis
    using l t u by (auto simp add: scaleOf_linearDet)
qed

lemma example_env_run:
  "georef example_env ds g0 = GeorefReturns example_refined [(0, 0)] [(2, 4)]"
  "georef example_env_shift ds g0 = GeorefReturns example_shifted [(0, 0)] [(2, 4)]"
  "georef (example_env\<lparr>button := Yes\<rparr>) ds g0 = GeorefReturns example_refined [(0, 0)] [(2, 4)]"
  "fst (georeference example_env example_item) = Returned"
  "fst (georeference example_env_shift example_item) = Returned"
  "fst (georeference (example_env\<lparr>button := Yes\<rparr>) example_item) = Returned"
  by (simp_all add: example_defs georeference_defs item_defs qtransform_defs Let_def)

theorem georeference_scale_report_witness:
  "prepare example_env example_item =
     Inr (example_ds,
          \<lparr>g00 = - 1490, g01 = 1 / 2, g02 = 0, g10 = 980, g11 = 0, g12 = - (1 / 2)\<rparr>) \<and>
   georef example_env example_ds
     \<lparr>g00 = - 1490, g01 = 1 / 2, g02 = 0, g10 = 980, g11 = 0, g12 = - (1 / 2)\<rparr> =
     GeorefReturns example_refined [(0, 0)] [(2, 4)] \<and>
   fst (georeference example_env example_item) = Returned \<and>
   log (snd (georeference example_env example_item)) =
     log example_item @ [LogInfo 1 500 (Some 200)] \<and>
   transform (snd (georeference (example_env\<lparr>button := Yes\<rparr>) example_item)) =
     newTrOf (refinedTrafo example_ds example_refined) \<and>
   newTrOf (refinedTrafo example_ds example_refined) = QTransform6 2 0 0 2 0 0 \<and>
   (0::real) \<le> 2 \<and>
   linearDet (transform example_item) \<noteq> 0 \<and>
   m11 (newTrOf (refinedTrafo example_ds example_refined)) = 2 * m11 (transform example_item) \<and>
   m12 (newTrOf (refinedTrafo example_ds example_refined)) = 2 * m12 (transform example_item) \<and>
   m21 (newTrOf (refinedTrafo example_ds example_refined)) = 2 * m21 (transform example_item) \<and>
   m22 (newTrOf (refinedTrafo example_ds example_refined)) = 2 * m22 (transform example_item) \<and>
   Some 200 = Some (format_2f 2) \<and>
   \<bar>real_of_int (format_2f 2) / 100 - 2\<bar> \<le> 1 / 200"
proof -
  note p = prepare_example_env(1)
  note m = example_env_run(1) [of example_ds
      "\<lparr>g00 = - 1490, g01 = 1 / 2, g02 = 0, g10 = 980, g11 = 0, g12 = - (1 / 2)\<rparr>"]
  note r = example_env_run(4)
  have l: "log (snd (georeference example_env example_item)) =
     log example_item @ [LogInfo 1 500 (Some 200)]"
    by (simp add: example_defs georeference_defs item_defs qtransform_defs format_defs Let_def)
  have n: "newTrOf (refinedTrafo example_ds example_refined) = QTransform6 2 0 0 2 0 0"
    by (simp add: example_defs georeference_defs refinedTrafo_def pixMapWidth_def)
  have h: "(0::real) \<le> 2 \<and>
     linearDet (transform example_item) \<noteq> 0 \<and>
     m11 (newTrOf (refinedTrafo example_ds example_refined)) = 2 * m11 (transform example_item) \<and>
     m12 (newTrOf (refinedTrafo example_ds example_refined)) = 2 * m12 (transform example_item) \<and>
     m21 (newTrOf (refinedTrafo example_ds example_refined)) = 2 * m21 (transform example_item) \<and>
     m22 (newTrOf (refinedTrafo example_ds example_refined)) = 2 * m22 (transform example_item)"
    unfolding n by (simp add: example_defs linearDet_def det2_def QTransform6_def)
  from georeference_scale_report [OF p m r] obtain k shift scale where
    e: "log (snd (georeference example_env example_item)) =
          log example_item @ [LogInfo k shift scale]"
    and t: "transform (snd (georeference (example_env\<lparr>button := Yes\<rparr>) example_item)) =
          newTrOf (refinedTrafo example_ds example_refined)"
    and a: "\<forall>k. 0 \<le> k \<and> linearDet (transform example_item) \<noteq> 0 \<and>
          m11 (newTrOf (refinedTrafo example_ds example_refined)) = k * m11 (transform example_item) \<and>
          m12 (newTrOf (refinedTrafo example_ds example_refined)) = k * m12 (transform example_item) \<and>
          m21 (newTrOf (refinedTrafo example_ds example_refined)) = k * m21 (transform example_item) \<and>
          m22 (newTrOf (refinedTrafo example_ds example_refined)) = k * m22 (transform example_item)
          \<longrightarrow> scale = Some (format_2f k) \<and> \<bar>real_of_int (format_2f k) / 100 - k\<bar> \<le> 1 / 200"
    by blast
  from e l have s: "scale = Some 200" by simp
  from a [rule_format, OF h] s
  have c: "Some 200 = Some (format_2f 2) \<and> \<bar>real_of_int (format_2f 2) / 100 - 2\<bar> \<le> 1 / 200"
    by simp
  from p m r l t n h c show ?thesis by blast
qed

text \<open>
  Claim C7, as the specification states it: for a change of the position alone by a
  distance \<open>d\<close> the shift that the call reports is \<open>d\<close> to within \<open>1e-6\<close>. The code does
  otherwise: the matcher moves the example item by \<open>d = 1 / 256\<close>, and the call reports
  the text \<^verbatim>\<open>0.00\<close>, which is off by \<open>1 / 256\<close>.
\<close>

theorem georeference_shift_two_decimals:
  "pos example_item = (10, 20) \<and>
   pos (snd (georeference (example_env_nudged\<lparr>button := Yes\<rparr>) example_item)) =
     (10 + 1 / 256, 20) \<and>
   transform (snd (georeference (example_env_nudged\<lparr>button := Yes\<rparr>) example_item)) =
     transform example_item \<and>
   log (snd (georeference example_env_nudged example_item)) = [LogInfo 1 0 (Some 100)] \<and>
   1 / 10 ^ 6 < \<bar>real_of_int 0 / 100 - 1 / 256\<bar>"
  by (simp add: example_defs georeference_defs item_defs qtransform_defs format_defs Let_def)

text \<open>
  Claim C7, amended. A call that returns after the matcher has returned reports the shift
  as a text with two decimals, and no other way. The shift is the Euclidean distance
  between the old position and the new one, which is the position computed at line 795;
  the item has it when the user accepts, unless Qt takes it for equal to the old one and
  leaves the item where it is. The text denotes the number with two decimals nearest to
  the distance, computed here in exact arithmetic; when the new position is the old one
  moved by a vector of length \<open>d\<close>, the text is that of \<open>d\<close>, which is within \<open>0.005\<close> of
  \<open>d\<close>.
\<close>

theorem georeference_shift_report:
  assumes "prepare env s = Inr (ds, g0)"
    and "georef env ds g0 = GeorefReturns g aPts oPts"
    and "fst (georeference env s) = Returned"
  shows "\<exists>n shift scale.
           log (snd (georeference env s)) = log s @ [LogInfo n shift scale] \<and>
           pos (snd (georeference (env\<lparr>button := Yes\<rparr>) s)) =
             (if QPointF_eq (pos s) (newPosOf (refinedTrafo ds g) (offset s)) then pos s
              else newPosOf (refinedTrafo ds g) (offset s)) \<and>
           shift = format_2f
                     (sqrt ((fst (pos s) - fst (newPosOf (refinedTrafo ds g) (offset s)))\<^sup>2 +
                            (snd (pos s) - snd (newPosOf (refinedTrafo ds g) (offset s)))\<^sup>2)) \<and>
           (\<forall>d dx dy. 0 \<le> d \<and> dx\<^sup>2 + dy\<^sup>2 = d\<^sup>2 \<and>
                newPosOf (refinedTrafo ds g) (offset s) = (fst (pos s) + dx, snd (pos s) + dy)
                \<longrightarrow> shift = format_2f d \<and> \<bar>real_of_int shift / 100 - d\<bar> \<le> 1 / 200)"
proof -
  have r: "fst (presentResult env s ds g aPts oPts) = Returned"
    using assms by (simp add: georeference_matched)
  have ry: "fst (presentResult (env\<lparr>button := Yes\<rparr>) s ds g aPts oPts) = Returned"
    using r by (simp add: presentResult_outcome_button)
  have l: "log (snd (georeference env s)) =
      log s @ [LogInfo (length aPts)
                 (format_2f (shiftOf (pos s) (newPosOf (refinedTrafo ds g) (offset s))))
                 (map_option format_2f (scaleOf (refinedTrafo ds g) (transform s)))]"
    using presentResult_returned(1) [OF r] assms by (simp add: georeference_matched)
  have p: "pos (snd (georeference (env\<lparr>button := Yes\<rparr>) s)) =
             (if QPointF_eq (pos s) (newPosOf (refinedTrafo ds g) (offset s)) then pos s
              else newPosOf (refinedTrafo ds g) (offset s))"
    using presentResult_returned(3) [OF ry] assms by (simp add: georeference_matched)
  have u: "format_2f (shiftOf (pos s) (newPosOf (refinedTrafo ds g) (offset s))) = format_2f d \<and>
           \<bar>real_of_int (format_2f (shiftOf (pos s) (newPosOf (refinedTrafo ds g) (offset s)))) / 100 - d\<bar>
             \<le> 1 / 200"
    if h: "0 \<le> d \<and> dx\<^sup>2 + dy\<^sup>2 = d\<^sup>2 \<and>
           newPosOf (refinedTrafo ds g) (offset s) = (fst (pos s) + dx, snd (pos s) + dy)"
    for d dx dy :: real
  proof -
    from h have "shiftOf (pos s) (newPosOf (refinedTrafo ds g) (offset s)) = sqrt (dx\<^sup>2 + dy\<^sup>2)"
      by (simp add: shiftOf_def)
    with h have "shiftOf (pos s) (newPosOf (refinedTrafo ds g) (offset s)) = d"
      by simp
    with format_2f_near [of d] show ?thesis by simp
  qed
  show ?thesis
    using l p u by (auto simp add: shiftOf_def)
qed

theorem georeference_shift_report_witness:
  "prepare example_env_shift example_item =
     Inr (example_ds,
          \<lparr>g00 = - 1490, g01 = 1 / 2, g02 = 0, g10 = 980, g11 = 0, g12 = - (1 / 2)\<rparr>) \<and>
   georef example_env_shift example_ds
     \<lparr>g00 = - 1490, g01 = 1 / 2, g02 = 0, g10 = 980, g11 = 0, g12 = - (1 / 2)\<rparr> =
     GeorefReturns example_shifted [(0, 0)] [(2, 4)] \<and>
   fst (georeference example_env_shift example_item) = Returned \<and>
   log (snd (georeference example_env_shift example_item)) =
     log example_item @ [LogInfo 1 500 (Some 100)] \<and>
   newPosOf (refinedTrafo example_ds example_shifted) (offset example_item) =
     (fst (pos example_item) + 3, snd (pos example_item) + 4) \<and>
   \<not> QPointF_eq (pos example_item)
       (newPosOf (refinedTrafo example_ds example_shifted) (offset example_item)) \<and>
   pos (snd (georeference (example_env_shift\<lparr>button := Yes\<rparr>) example_item)) = (13, 24) \<and>
   (0::real) \<le> 5 \<and> (3::real)\<^sup>2 + 4\<^sup>2 = 5\<^sup>2 \<and>
   (500::int) = format_2f 5 \<and>
   \<bar>real_of_int 500 / 100 - 5\<bar> \<le> (1::real) / 200"
proof -
  note p = prepare_example_env(2)
  note m = example_env_run(2) [of example_ds
      "\<lparr>g00 = - 1490, g01 = 1 / 2, g02 = 0, g10 = 980, g11 = 0, g12 = - (1 / 2)\<rparr>"]
  note r = example_env_run(5)
  have l: "log (snd (georeference example_env_shift example_item)) =
     log example_item @ [LogInfo 1 500 (Some 100)]"
    by (simp add: example_defs georeference_defs item_defs qtransform_defs format_defs Let_def)
  have n: "newPosOf (refinedTrafo example_ds example_shifted) (offset example_item) = (13, 24)"
    by (simp add: example_defs georeference_defs refinedTrafo_def pixMapWidth_def)
  have q: "pos example_item = (10, 20)"
    by (simp add: example_defs)
  have h: "(0::real) \<le> 5 \<and> (3::real)\<^sup>2 + 4\<^sup>2 = 5\<^sup>2 \<and>
     newPosOf (refinedTrafo example_ds example_shifted) (offset example_item) =
       (fst (pos example_item) + 3, snd (pos example_item) + 4)"
    unfolding n q by simp
  have f: "\<not> QPointF_eq (pos example_item)
       (newPosOf (refinedTrafo example_ds example_shifted) (offset example_item))"
    unfolding n q by simp
  from georeference_shift_report [OF p m r] obtain k shift scale where
    e: "log (snd (georeference example_env_shift example_item)) =
          log example_item @ [LogInfo k shift scale]"
    and t: "pos (snd (georeference (example_env_shift\<lparr>button := Yes\<rparr>) example_item)) =
          (if QPointF_eq (pos example_item)
                (newPosOf (refinedTrafo example_ds example_shifted) (offset example_item))
           then pos example_item
           else newPosOf (refinedTrafo example_ds example_shifted) (offset example_item))"
    and a: "\<forall>d dx dy. 0 \<le> d \<and> dx\<^sup>2 + dy\<^sup>2 = d\<^sup>2 \<and>
          newPosOf (refinedTrafo example_ds example_shifted) (offset example_item) =
            (fst (pos example_item) + dx, snd (pos example_item) + dy)
          \<longrightarrow> shift = format_2f d \<and> \<bar>real_of_int shift / 100 - d\<bar> \<le> 1 / 200"
    by blast
  from e l have s: "shift = 500" by simp
  from t f n have y: "pos (snd (georeference (example_env_shift\<lparr>button := Yes\<rparr>) example_item)) =
      (13, 24)"
    by simp
  from a [rule_format, OF h] s
  have c: "(500::int) = format_2f 5 \<and> \<bar>real_of_int 500 / 100 - 5\<bar> \<le> (1::real) / 200"
    by simp
  from p m r l h f y c show ?thesis by blast
qed

subsection \<open>The transform that the call installs\<close>

lemma newTrOf_exact:
  "m13 (newTrOf g) = 0 \<and> m23 (newTrOf g) = 0 \<and> m31 (newTrOf g) = 0 \<and>
   m32 (newTrOf g) = 0 \<and> m33 (newTrOf g) = 1"
  by (simp add: newTrOf_def QTransform6_def)

lemma presentResult_transform:
  "transform (snd (presentResult env s ds g aPts oPts)) = transform s \<or>
   (fst (presentResult env s ds g aPts oPts) = Returned \<and>
    (\<exists>g1. transform (snd (presentResult env s ds g aPts oPts)) = newTrOf g1))"
proof (cases "views env")
  case Nil
  then show ?thesis by (simp add: presentResult_def Let_def)
next
  case (Cons vt vs)
  then show ?thesis
    by (cases "button env = No") (auto simp add: presentResult_def Let_def)
qed

lemma georeference_transform:
  "transform (snd (georeference env s)) = transform s \<or>
   (fst (georeference env s) = Returned \<and>
    (\<exists>g1. transform (snd (georeference env s)) = newTrOf g1))"
proof (cases "prepare env s")
  case (Inl e)
  then show ?thesis by (simp add: georeference_def)
next
  case (Inr r)
  obtain ds g0 where r: "r = (ds, g0)" by (cases r)
  show ?thesis
  proof (cases "georef env ds g0")
    case GeorefRaises
    with Inr r show ?thesis by (simp add: georeference_def)
  next
    case (GeorefReturns g aPts oPts)
    with Inr r presentResult_transform [of env s ds g aPts oPts] show ?thesis
      by (simp add: georeference_def)
  qed
qed

lemma georeference_rejected:
  "button env = No \<Longrightarrow> transform (snd (georeference env s)) = transform s"
  by (simp add: georeference_def presentResult_reject
      split: sum.splits prod.splits georef_result.splits)

lemma georeference_matcher_raised:
  "prepare env s = Inr (ds, g0) \<Longrightarrow> georef env ds g0 = GeorefRaises \<Longrightarrow>
   transform (snd (georeference env s)) = transform s"
  by (simp add: georeference_def)

lemma homogeneousWithin_exact:
  "m13 t = 0 \<Longrightarrow> m23 t = 0 \<Longrightarrow> m31 t = 0 \<Longrightarrow> m32 t = 0 \<Longrightarrow> m33 t = 1 \<Longrightarrow>
   homogeneousWithin double_1e_7 t"
  by (simp add: homogeneousWithin_def double_1e_7_def)

text \<open>
  Claim C5, as the specification states it: for every valid initial transform the call
  either returns a typed error or installs a refined transform. The code does otherwise:
  the transform of the example item is valid and the matcher raises; the call returns as
  it does after a success, with no error, and installs nothing.
\<close>

theorem georeference_matcher_failure_installs_nothing:
  "homogeneousWithin double_1e_7 (transform example_item) \<and>
   fst (georeference example_env_raises example_item) = Returned \<and>
   fst (georeference (example_env\<lparr>button := Yes\<rparr>) example_item) = Returned \<and>
   transform (snd (georeference example_env_raises example_item)) = transform example_item \<and>
   row (snd (georeference example_env_raises example_item)) = row example_item"
  by (simp add: example_defs georeference_defs item_defs qtransform_defs Let_def
      homogeneousWithin_def)

text \<open>
  Claim C5, amended. For every initial transform that passes the two assertions, the
  transform of the item after the call is within the tolerance too, and it is one of two.
  When the matcher has returned, the call returns and the user accepts, it is the
  transform built at line 797 from the result of the matcher, whose projective and
  translation entries are exactly 0 and whose \<open>m33\<close> is exactly 1. When the call ends
  with an exception, or the user rejects, or the matcher raises (and then the call returns
  with a log entry and no error), it is the initial transform.
\<close>

theorem georeference_installs_homogeneous:
  assumes "homogeneousWithin double_1e_7 (transform s)"
  shows "homogeneousWithin double_1e_7 (transform (snd (georeference env s))) \<and>
         (\<forall>ds g0 g aPts oPts.
            prepare env s = Inr (ds, g0) \<and> georef env ds g0 = GeorefReturns g aPts oPts \<and>
            fst (georeference env s) = Returned \<and> button env = Yes \<longrightarrow>
            transform (snd (georeference env s)) = newTrOf (refinedTrafo ds g) \<and>
            m13 (transform (snd (georeference env s))) = 0 \<and>
            m23 (transform (snd (georeference env s))) = 0 \<and>
            m31 (transform (snd (georeference env s))) = 0 \<and>
            m32 (transform (snd (georeference env s))) = 0 \<and>
            m33 (transform (snd (georeference env s))) = 1) \<and>
         (fst (georeference env s) \<noteq> Returned \<or> button env = No \<or>
          (\<exists>ds g0. prepare env s = Inr (ds, g0) \<and> georef env ds g0 = GeorefRaises) \<longrightarrow>
            transform (snd (georeference env s)) = transform s)"
proof -
  from georeference_transform [of env s]
  consider "transform (snd (georeference env s)) = transform s"
    | g1 where "transform (snd (georeference env s)) = newTrOf g1"
    by blast
  then have a: "homogeneousWithin double_1e_7 (transform (snd (georeference env s)))"
  proof cases
    case 1
    with assms show ?thesis by simp
  next
    case 2
    with newTrOf_exact [of g1] homogeneousWithin_exact [of "newTrOf g1"] show ?thesis
      by simp
  qed
  have b: "\<forall>ds g0 g aPts oPts.
            prepare env s = Inr (ds, g0) \<and> georef env ds g0 = GeorefReturns g aPts oPts \<and>
            fst (georeference env s) = Returned \<and> button env = Yes \<longrightarrow>
            transform (snd (georeference env s)) = newTrOf (refinedTrafo ds g) \<and>
            m13 (transform (snd (georeference env s))) = 0 \<and>
            m23 (transform (snd (georeference env s))) = 0 \<and>
            m31 (transform (snd (georeference env s))) = 0 \<and>
            m32 (transform (snd (georeference env s))) = 0 \<and>
            m33 (transform (snd (georeference env s))) = 1"
  proof (intro allI impI)
    fix ds g0 g aPts oPts
    assume h: "prepare env s = Inr (ds, g0) \<and> georef env ds g0 = GeorefReturns g aPts oPts \<and>
              fst (georeference env s) = Returned \<and> button env = Yes"
    then have hp: "prepare env s = Inr (ds, g0)"
      and hm: "georef env ds g0 = GeorefReturns g aPts oPts"
      and hr: "fst (georeference env s) = Returned"
      and hb: "button env = Yes"
      by simp_all
    have e: "georeference env s = presentResult env s ds g aPts oPts"
      by (rule georeference_matched(1) [OF hp hm])
    from hr have r: "fst (presentResult env s ds g aPts oPts) = Returned"
      by (simp add: e)
    from presentResult_returned(2) [OF r hb]
    have t: "transform (snd (georeference env s)) = newTrOf (refinedTrafo ds g)"
      by (simp add: e)
    with newTrOf_exact [of "refinedTrafo ds g"]
    show "transform (snd (georeference env s)) = newTrOf (refinedTrafo ds g) \<and>
          m13 (transform (snd (georeference env s))) = 0 \<and>
          m23 (transform (snd (georeference env s))) = 0 \<and>
          m31 (transform (snd (georeference env s))) = 0 \<and>
          m32 (transform (snd (georeference env s))) = 0 \<and>
          m33 (transform (snd (georeference env s))) = 1"
      by simp
  qed
  have c: "fst (georeference env s) \<noteq> Returned \<or> button env = No \<or>
          (\<exists>ds g0. prepare env s = Inr (ds, g0) \<and> georef env ds g0 = GeorefRaises) \<longrightarrow>
            transform (snd (georeference env s)) = transform s"
  proof (rule impI)
    assume "fst (georeference env s) \<noteq> Returned \<or> button env = No \<or>
            (\<exists>ds g0. prepare env s = Inr (ds, g0) \<and> georef env ds g0 = GeorefRaises)"
    then consider "fst (georeference env s) \<noteq> Returned" | "button env = No"
      | ds g0 where "prepare env s = Inr (ds, g0)" "georef env ds g0 = GeorefRaises"
      by blast
    then show "transform (snd (georeference env s)) = transform s"
    proof cases
      case 1
      with georeference_transform [of env s] show ?thesis by blast
    next
      case 2
      then show ?thesis by (rule georeference_rejected)
    next
      case 3
      then show ?thesis by (rule georeference_matcher_raised)
    qed
  qed
  show ?thesis
    by (rule conjI [OF a conjI [OF b c]])
qed

theorem georeference_installs_homogeneous_witness:
  "homogeneousWithin double_1e_7 (transform example_item) \<and>
   prepare (example_env\<lparr>button := Yes\<rparr>) example_item =
     Inr (example_ds,
          \<lparr>g00 = - 1490, g01 = 1 / 2, g02 = 0, g10 = 980, g11 = 0, g12 = - (1 / 2)\<rparr>) \<and>
   georef (example_env\<lparr>button := Yes\<rparr>) example_ds
     \<lparr>g00 = - 1490, g01 = 1 / 2, g02 = 0, g10 = 980, g11 = 0, g12 = - (1 / 2)\<rparr> =
     GeorefReturns example_refined [(0, 0)] [(2, 4)] \<and>
   fst (georeference (example_env\<lparr>button := Yes\<rparr>) example_item) = Returned \<and>
   button (example_env\<lparr>button := Yes\<rparr>) = Yes \<and>
   newTrOf (refinedTrafo example_ds example_refined) = QTransform6 2 0 0 2 0 0 \<and>
   transform (snd (georeference (example_env\<lparr>button := Yes\<rparr>) example_item)) =
     QTransform6 2 0 0 2 0 0 \<and>
   m33 (transform (snd (georeference (example_env\<lparr>button := Yes\<rparr>) example_item))) = 1 \<and>
   homogeneousWithin double_1e_7
     (transform (snd (georeference (example_env\<lparr>button := Yes\<rparr>) example_item))) \<and>
   prepare example_env_raises example_item =
     Inr (example_ds,
          \<lparr>g00 = - 1490, g01 = 1 / 2, g02 = 0, g10 = 980, g11 = 0, g12 = - (1 / 2)\<rparr>) \<and>
   georef example_env_raises example_ds
     \<lparr>g00 = - 1490, g01 = 1 / 2, g02 = 0, g10 = 980, g11 = 0, g12 = - (1 / 2)\<rparr> =
     GeorefRaises \<and>
   transform (snd (georeference example_env_raises example_item)) = transform example_item \<and>
   button example_env = No \<and>
   transform (snd (georeference example_env example_item)) = transform example_item"
proof -
  let ?g0 = "\<lparr>g00 = - 1490, g01 = 1 / 2, g02 = 0, g10 = 980, g11 = 0, g12 = - (1 / 2)\<rparr>"
  have v: "homogeneousWithin double_1e_7 (transform example_item)"
    by (simp add: example_defs homogeneousWithin_def QTransform6_def double_1e_7_def)
  have p: "prepare (example_env\<lparr>button := Yes\<rparr>) example_item = Inr (example_ds, ?g0)"
    using prepare_example_env(1) by simp
  note m = example_env_run(3) [of example_ds ?g0]
  note r = example_env_run(6)
  have b: "button (example_env\<lparr>button := Yes\<rparr>) = Yes"
    by simp
  have n: "newTrOf (refinedTrafo example_ds example_refined) = QTransform6 2 0 0 2 0 0"
    by (simp add: example_defs georeference_defs refinedTrafo_def pixMapWidth_def)
  note pr = prepare_example
  note mr = georef_example_raises [of example_ds ?g0]
  have bn: "button example_env = No"
    by (simp add: example_env_def)
  from georeference_installs_homogeneous [OF v, of "example_env\<lparr>button := Yes\<rparr>"]
  have w: "homogeneousWithin double_1e_7
       (transform (snd (georeference (example_env\<lparr>button := Yes\<rparr>) example_item)))"
    and a: "\<forall>ds g0 g aPts oPts.
       prepare (example_env\<lparr>button := Yes\<rparr>) example_item = Inr (ds, g0) \<and>
       georef (example_env\<lparr>button := Yes\<rparr>) ds g0 = GeorefReturns g aPts oPts \<and>
       fst (georeference (example_env\<lparr>button := Yes\<rparr>) example_item) = Returned \<and>
       button (example_env\<lparr>button := Yes\<rparr>) = Yes \<longrightarrow>
       transform (snd (georeference (example_env\<lparr>button := Yes\<rparr>) example_item)) =
         newTrOf (refinedTrafo ds g) \<and>
       m13 (transform (snd (georeference (example_env\<lparr>button := Yes\<rparr>) example_item))) = 0 \<and>
       m23 (transform (snd (georeference (example_env\<lparr>button := Yes\<rparr>) example_item))) = 0 \<and>
       m31 (transform (snd (georeference (example_env\<lparr>button := Yes\<rparr>) example_item))) = 0 \<and>
       m32 (transform (snd (georeference (example_env\<lparr>button := Yes\<rparr>) example_item))) = 0 \<and>
       m33 (transform (snd (georeference (example_env\<lparr>button := Yes\<rparr>) example_item))) = 1"
    by blast+
  from a [rule_format, of example_ds ?g0 example_refined "[(0, 0)]" "[(2, 4)]"] p m r b n
  have t: "transform (snd (georeference (example_env\<lparr>button := Yes\<rparr>) example_item)) =
       QTransform6 2 0 0 2 0 0"
    and o: "m33 (transform (snd (georeference (example_env\<lparr>button := Yes\<rparr>) example_item))) = 1"
    by (simp_all add: QTransform6_def)
  from georeference_installs_homogeneous [OF v, of example_env_raises] pr mr
  have u: "transform (snd (georeference example_env_raises example_item)) =
       transform example_item"
    by blast
  from georeference_installs_homogeneous [OF v, of example_env] bn
  have j: "transform (snd (georeference example_env example_item)) = transform example_item"
    by blast
  from v p m r b n t o w pr mr u bn j show ?thesis by blast
qed

section \<open>Properties of the wheel event\<close>

lemma map_point_weight:
  "map_point t p =
     ((m11 t * fst p + m21 t * snd p + m31 t) / weight t p,
      (m12 t * fst p + m22 t * snd p + m32 t) / weight t p)"
  by (simp add: map_point_def weight_def isAffine_def Let_def divide_inverse)

lemma weight_translate [simp]: "weight (mul t (fromTranslate a b)) p = weight t p"
  by (simp add: weight_def mul_def fromTranslate_def QTransform6_def)

lemma map_point_translate:
  assumes "weight t p \<noteq> 0"
  shows "map_point (mul t (fromTranslate a b)) p =
           (fst (map_point t p) + a, snd (map_point t p) + b)"
proof -
  have w: "m13 t * fst p + m23 t * snd p + m33 t \<noteq> 0"
    using assms by (simp add: weight_def)
  show ?thesis
    unfolding map_point_weight weight_translate
    using w by (simp add: weight_def mul_def fromTranslate_def QTransform6_def field_simps)
qed

text \<open>
  \<^verbatim>\<open>moveBy\<close> is \<^verbatim>\<open>setPos\<close> of the moved position, so it leaves the item where it
  is when Qt takes the moved position for equal to the present one.
\<close>

lemma moveBy_fields [simp]:
  "pos (moveBy dx dy s) =
     (if QPointF_eq (pos s) (fst (pos s) + dx, snd (pos s) + dy) then pos s
      else (fst (pos s) + dx, snd (pos s) + dy))"
  "transform (moveBy dx dy s) = transform s"
  by (simp_all add: moveBy_def)

lemma applyWheelTrafo_fields:
  "transform (applyWheelTrafo t s) =
     mul (mul t (transform s))
       (fromTranslate (- fst (originOf t s)) (- snd (originOf t s)))"
  "pos (applyWheelTrafo t s) =
     (if QPointF_eq (pos s)
           (fst (pos s) + fst (originOf t s), snd (pos s) + snd (originOf t s))
      then pos s
      else (fst (pos s) + fst (originOf t s), snd (pos s) + snd (originOf t s)))"
  by (simp_all add: applyWheelTrafo_def originOf_def Let_def)

lemma applyWheelTrafo_scene:
  assumes "weight (mul t (transform s)) p \<noteq> 0"
  shows "mapToScene (applyWheelTrafo t s) p =
           (if QPointF_eq (pos s)
                 (fst (pos s) + fst (originOf t s), snd (pos s) + snd (originOf t s))
            then (fst (mapToScene (applyWheelTrafoNaive t s) p) - fst (originOf t s),
                  snd (mapToScene (applyWheelTrafoNaive t s) p) - snd (originOf t s))
            else mapToScene (applyWheelTrafoNaive t s) p)"
  using assms
  by (simp add: mapToScene_def sceneTransform_def applyWheelTrafo_fields
      applyWheelTrafoNaive_def map_point_translate)

lemma applyWheelTrafo_origin:
  assumes "weight (mul t (transform s)) (0, 0) \<noteq> 0"
  shows "map_point (transform (applyWheelTrafo t s)) (0, 0) = (0, 0)"
  using assms by (simp add: applyWheelTrafo_fields map_point_translate originOf_def)

lemma wheelEvent_update:
  assumes "availability s = Some a" and "availability_value preview \<le> availability_value a"
    and "hasFocus s" and "\<not> altModifier ev" and "isMovable s"
  shows "wheelEvent ev s = (Returned, True, applyWheelTrafo (wheelTrafo ev) s)"
  using assms by (simp add: wheelEvent_def Let_def)

text \<open>
  The transform of a wheel event is affine, so the weights are 1 for every point when the
  transform of the item is affine.
\<close>

lemma weight_affine: "isAffine t \<Longrightarrow> weight t p = 1"
  by (simp add: weight_def isAffine_def)

lemma isAffine_mul: "isAffine a \<Longrightarrow> isAffine b \<Longrightarrow> isAffine (mul a b)"
  by (simp add: isAffine_def mul_def)

lemma isAffine_wheelTrafo: "isAffine (wheelTrafo ev)"
  by (simp add: wheelTrafo_def Let_def isAffine_def mul_def scale_by_def rotate_by_def
      translate_by_def fromTranslate_def fromScale_def QTransform6_def)

lemma weight_wheel_affine:
  "isAffine (transform s) \<Longrightarrow> weight (mul (wheelTrafo ev) (transform s)) p = 1"
  by (simp add: weight_affine isAffine_mul isAffine_wheelTrafo)

text \<open>
  Where Qt takes two positions for equal, they differ by at most \<open>1e-12\<close>, absolutely or
  relative to the coordinate: so far is the mapping of the method from that of the update
  that only sets the transform.
\<close>

lemma fuzzy_coordinate_near:
  assumes "if a = 0 \<or> b = 0 then qFuzzyIsNull (a - b) else qFuzzyCompare a b"
  shows "\<bar>a - b\<bar> \<le> max double_1e_12 (\<bar>a\<bar> / 1000000000000)"
proof (cases "a = 0 \<or> b = 0")
  case True
  with assms have "\<bar>a - b\<bar> \<le> double_1e_12"
    by (simp add: qFuzzyIsNull_def)
  then show ?thesis by (simp add: le_max_iff_disj)
next
  case False
  with assms have "\<bar>a - b\<bar> * 1000000000000 \<le> min \<bar>a\<bar> \<bar>b\<bar>"
    by (simp add: qFuzzyCompare_def)
  then have "\<bar>a - b\<bar> * 1000000000000 \<le> \<bar>a\<bar>"
    by simp
  then have "\<bar>a - b\<bar> \<le> \<bar>a\<bar> / 1000000000000"
    by (simp add: field_simps)
  then show ?thesis by (simp add: le_max_iff_disj)
qed

lemma QPointF_eq_near:
  assumes "QPointF_eq p q"
  shows "\<bar>fst p - fst q\<bar> \<le> max double_1e_12 (\<bar>fst p\<bar> / 1000000000000)"
    and "\<bar>snd p - snd q\<bar> \<le> max double_1e_12 (\<bar>snd p\<bar> / 1000000000000)"
  using assms fuzzy_coordinate_near [of "fst p" "fst q"] fuzzy_coordinate_near [of "snd p" "snd q"]
  by (simp_all add: QPointF_eq_def)

lemma QPointF_eq_moved_near:
  assumes "QPointF_eq p (fst p + fst d, snd p + snd d)"
  shows "\<bar>fst d\<bar> \<le> max double_1e_12 (\<bar>fst p\<bar> / 1000000000000)"
    and "\<bar>snd d\<bar> \<le> max double_1e_12 (\<bar>snd p\<bar> / 1000000000000)"
  using QPointF_eq_near [OF assms] by simp_all

text \<open>One notch of the wheel without modifier keys zooms by \<^verbatim>\<open>1.1 ** 1\<close>.\<close>

lemma wheelTrafo_one_notch:
  assumes "delta ev = 120" and "\<not> shiftModifier ev" and "\<not> controlModifier ev"
  shows "wheelTrafo ev =
           QTransform6 double_1_1 0 0 double_1_1
             (fst (event_pos ev) * (1 - double_1_1)) (snd (event_pos ev) * (1 - double_1_1))"
proof -
  have "0 \<le> double_1_1"
    by (simp add: double_1_1_def)
  then have "double_1_1 powr 1 = double_1_1"
    by simp
  with assms show ?thesis
    by (simp add: wheelTrafo_def numStepsOf_def qtransform_defs Let_def)
qed

text \<open>The two wheel events of the examples, on the example item.\<close>

lemma example_wheel_runs:
  "wheelEvent example_wheel example_item =
     (Returned, True, applyWheelTrafo (wheelTrafo example_wheel) example_item)"
  "wheelEvent example_wheel_near example_item =
     (Returned, True, applyWheelTrafo (wheelTrafo example_wheel_near) example_item)"
  by (simp_all add: example_defs wheelEvent_def Let_def)

lemma example_wheel_trafos:
  "mul (wheelTrafo example_wheel) (transform example_item) =
     QTransform6 double_1_1 0 0 double_1_1 (100 * (1 - double_1_1)) (50 * (1 - double_1_1))"
  "mul (wheelTrafo example_wheel_near) (transform example_item) =
     QTransform6 double_1_1 0 0 double_1_1
       ((1 - double_1_1) / 2 ^ 37) ((1 - double_1_1) / 2 ^ 36)"
  by (simp_all add: wheelTrafo_one_notch example_defs qtransform_defs)

lemma example_wheel_origins:
  "originOf (wheelTrafo example_wheel) example_item =
     (100 * (1 - double_1_1), 50 * (1 - double_1_1))"
  "originOf (wheelTrafo example_wheel_near) example_item =
     ((1 - double_1_1) / 2 ^ 37, (1 - double_1_1) / 2 ^ 36)"
  unfolding originOf_def example_wheel_trafos by (simp_all add: qtransform_defs)

lemma example_wheel_fuzzy:
  "\<not> QPointF_eq (10, 20) (10 + 100 * (1 - double_1_1), 20 + 50 * (1 - double_1_1))"
  "QPointF_eq (10, 20) (10 + (1 - double_1_1) / 2 ^ 37, 20 + (1 - double_1_1) / 2 ^ 36)"
  by (simp_all add: fuzzy_defs double_1_1_def)

lemma example_wheel_weights:
  "weight (mul (wheelTrafo ev) (transform example_item)) p = 1"
  by (rule weight_wheel_affine) (simp add: example_defs qtransform_defs)

text \<open>
  Claim C10, as stated: for every wheel event that zooms or rotates the image, the update
  of lines 490 to 493 gives exactly the same mapping from the item to the scene as the
  update that only sets the transform to \<open>combined\<close>. The code does otherwise when the
  cursor is very near the origin of the item: the transform loses its translation, but Qt
  takes the moved position for equal to the present one and does not move the item, so
  the origin of the item stays at \<open>(10, 20)\<close> in the scene, where the other update puts it
  elsewhere.
\<close>

theorem wheelEvent_near_origin_differs:
  "fst (wheelEvent example_wheel_near example_item) = Returned \<and>
   originOf (wheelTrafo example_wheel_near) example_item =
     ((1 - double_1_1) / 2 ^ 37, (1 - double_1_1) / 2 ^ 36) \<and>
   pos (snd (snd (wheelEvent example_wheel_near example_item))) = pos example_item \<and>
   transform (snd (snd (wheelEvent example_wheel_near example_item))) =
     QTransform6 double_1_1 0 0 double_1_1 0 0 \<and>
   mapToScene (snd (snd (wheelEvent example_wheel_near example_item))) (0, 0) = (10, 20) \<and>
   mapToScene (applyWheelTrafoNaive (wheelTrafo example_wheel_near) example_item) (0, 0) =
     (10 + (1 - double_1_1) / 2 ^ 37, 20 + (1 - double_1_1) / 2 ^ 36) \<and>
   mapToScene (snd (snd (wheelEvent example_wheel_near example_item))) (0, 0) \<noteq>
     mapToScene (applyWheelTrafoNaive (wheelTrafo example_wheel_near) example_item) (0, 0)"
proof -
  have p: "pos example_item = (10, 20)"
    by (simp add: example_defs)
  have q: "pos (applyWheelTrafo (wheelTrafo example_wheel_near) example_item) = (10, 20)"
    unfolding applyWheelTrafo_fields example_wheel_origins p fst_conv snd_conv
    using example_wheel_fuzzy(2) by (simp only: if_True)
  have t: "transform (applyWheelTrafo (wheelTrafo example_wheel_near) example_item) =
     QTransform6 double_1_1 0 0 double_1_1 0 0"
    by (simp add: applyWheelTrafo_fields example_wheel_origins example_wheel_trafos)
       (simp add: qtransform_defs)
  have c: "mapToScene (applyWheelTrafo (wheelTrafo example_wheel_near) example_item) (0, 0) =
     (10, 20)"
    by (simp add: mapToScene_def sceneTransform_def q t) (simp add: qtransform_defs)
  have n: "mapToScene (applyWheelTrafoNaive (wheelTrafo example_wheel_near) example_item) (0, 0) =
     (10 + (1 - double_1_1) / 2 ^ 37, 20 + (1 - double_1_1) / 2 ^ 36)"
    by (simp add: mapToScene_def sceneTransform_def applyWheelTrafoNaive_def
        example_wheel_trafos p)
       (simp add: qtransform_defs)
  have d: "(10::real, 20::real) \<noteq> (10 + (1 - double_1_1) / 2 ^ 37, 20 + (1 - double_1_1) / 2 ^ 36)"
    by (simp add: double_1_1_def)
  show ?thesis
    using p q t c n d by (simp add: example_wheel_runs example_wheel_origins)
qed

text \<open>
  Claim C10, amended. For every wheel event that zooms or rotates the image, with
  \<open>combined = trafo * transform\<close> and \<open>o = combined.map(0, 0)\<close>, the update of lines 490 to
  493 sets the transform to \<open>combined * translate(-o)\<close>, which maps the origin of the item
  to \<open>(0, 0)\<close>, and asks Qt to move the item by \<open>o\<close>. When Qt does not take the moved
  position for equal to the present one, the item moves, and every point of the item is
  mapped to the same point of the scene as by the update that only sets the transform to
  \<open>combined\<close>. When Qt takes the two positions for equal, the item stays where it is, and
  every point is mapped to the point that the other update gives, moved back by \<open>o\<close>; then
  each coordinate of \<open>o\<close> is at most \<open>1e-12\<close>, or \<open>1e-12\<close> times that coordinate of the
  position. The points are those where \<open>combined\<close> has a homogeneous weight other than 0,
  which are all points when the transform of the item is affine. The products and sums
  are those of exact arithmetic; the rounding of the doubles is not part of the model.
\<close>

theorem wheelEvent_scene_mapping:
  assumes "availability s = Some a" and "availability_value preview \<le> availability_value a"
    and "hasFocus s" and "\<not> altModifier ev" and "isMovable s"
    and "weight (mul (wheelTrafo ev) (transform s)) (0, 0) \<noteq> 0"
    and "weight (mul (wheelTrafo ev) (transform s)) p \<noteq> 0"
  shows "(if QPointF_eq (pos s)
                (fst (pos s) + fst (originOf (wheelTrafo ev) s),
                 snd (pos s) + snd (originOf (wheelTrafo ev) s))
          then pos (snd (snd (wheelEvent ev s))) = pos s \<and>
               mapToScene (snd (snd (wheelEvent ev s))) p =
                 (fst (mapToScene (applyWheelTrafoNaive (wheelTrafo ev) s) p)
                    - fst (originOf (wheelTrafo ev) s),
                  snd (mapToScene (applyWheelTrafoNaive (wheelTrafo ev) s) p)
                    - snd (originOf (wheelTrafo ev) s)) \<and>
               \<bar>fst (originOf (wheelTrafo ev) s)\<bar>
                 \<le> max double_1e_12 (\<bar>fst (pos s)\<bar> / 1000000000000) \<and>
               \<bar>snd (originOf (wheelTrafo ev) s)\<bar>
                 \<le> max double_1e_12 (\<bar>snd (pos s)\<bar> / 1000000000000)
          else pos (snd (snd (wheelEvent ev s))) =
                 (fst (pos s) + fst (originOf (wheelTrafo ev) s),
                  snd (pos s) + snd (originOf (wheelTrafo ev) s)) \<and>
               mapToScene (snd (snd (wheelEvent ev s))) p =
                 mapToScene (applyWheelTrafoNaive (wheelTrafo ev) s) p) \<and>
         map_point (transform (snd (snd (wheelEvent ev s)))) (0, 0) = (0, 0)"
proof -
  have e: "snd (snd (wheelEvent ev s)) = applyWheelTrafo (wheelTrafo ev) s"
    using assms by (simp add: wheelEvent_update)
  show ?thesis
  proof (cases "QPointF_eq (pos s)
                (fst (pos s) + fst (originOf (wheelTrafo ev) s),
                 snd (pos s) + snd (originOf (wheelTrafo ev) s))")
    case True
    with QPointF_eq_moved_near [OF True] assms(6,7) show ?thesis
      by (simp add: e applyWheelTrafo_fields(2) applyWheelTrafo_scene applyWheelTrafo_origin)
  next
    case False
    with assms(6,7) show ?thesis
      by (simp add: e applyWheelTrafo_fields(2) applyWheelTrafo_scene applyWheelTrafo_origin)
  qed
qed

theorem wheelEvent_scene_mapping_witness:
  "availability example_item = Some image \<and>
   availability_value preview \<le> availability_value image \<and>
   hasFocus example_item \<and> \<not> altModifier example_wheel \<and> isMovable example_item \<and>
   weight (mul (wheelTrafo example_wheel) (transform example_item)) (0, 0) \<noteq> 0 \<and>
   weight (mul (wheelTrafo example_wheel) (transform example_item)) (100, 50) \<noteq> 0 \<and>
   pos example_item = (10, 20) \<and>
   originOf (wheelTrafo example_wheel) example_item =
     (100 * (1 - double_1_1), 50 * (1 - double_1_1)) \<and>
   \<not> QPointF_eq (10, 20) (10 + 100 * (1 - double_1_1), 20 + 50 * (1 - double_1_1)) \<and>
   pos (snd (snd (wheelEvent example_wheel example_item))) =
     (10 + 100 * (1 - double_1_1), 20 + 50 * (1 - double_1_1)) \<and>
   mapToScene (snd (snd (wheelEvent example_wheel example_item))) (100, 50) =
     mapToScene (applyWheelTrafoNaive (wheelTrafo example_wheel) example_item) (100, 50) \<and>
   mapToScene (applyWheelTrafoNaive (wheelTrafo example_wheel) example_item) (100, 50) =
     (110, 70) \<and>
   map_point (transform (snd (snd (wheelEvent example_wheel example_item)))) (0, 0) = (0, 0) \<and>
   \<not> altModifier example_wheel_near \<and>
   weight (mul (wheelTrafo example_wheel_near) (transform example_item)) (0, 0) \<noteq> 0 \<and>
   originOf (wheelTrafo example_wheel_near) example_item =
     ((1 - double_1_1) / 2 ^ 37, (1 - double_1_1) / 2 ^ 36) \<and>
   QPointF_eq (10, 20) (10 + (1 - double_1_1) / 2 ^ 37, 20 + (1 - double_1_1) / 2 ^ 36) \<and>
   pos (snd (snd (wheelEvent example_wheel_near example_item))) = (10, 20) \<and>
   \<bar>(1 - double_1_1) / 2 ^ 37\<bar> \<le> max double_1e_12 (\<bar>10\<bar> / 1000000000000) \<and>
   map_point (transform (snd (snd (wheelEvent example_wheel_near example_item)))) (0, 0) = (0, 0)"
proof -
  have a: "availability example_item = Some image"
    and v: "availability_value preview \<le> availability_value image"
    and f: "hasFocus example_item"
    and m: "\<not> altModifier example_wheel"
    and mn: "\<not> altModifier example_wheel_near"
    and i: "isMovable example_item"
    and p: "pos example_item = (10, 20)"
    by (simp_all add: example_defs)
  have w0: "weight (mul (wheelTrafo example_wheel) (transform example_item)) (0, 0) \<noteq> 0"
    and w1: "weight (mul (wheelTrafo example_wheel) (transform example_item)) (100, 50) \<noteq> 0"
    and wn: "weight (mul (wheelTrafo example_wheel_near) (transform example_item)) (0, 0) \<noteq> 0"
    by (simp_all add: example_wheel_weights)
  note o = example_wheel_origins(1)
  note on = example_wheel_origins(2)
  note z = example_wheel_fuzzy(1)
  note zn = example_wheel_fuzzy(2)
  have n: "mapToScene (applyWheelTrafoNaive (wheelTrafo example_wheel) example_item) (100, 50) =
     (110, 70)"
    by (simp add: mapToScene_def sceneTransform_def applyWheelTrafoNaive_def
        example_wheel_trafos p)
       (simp add: qtransform_defs)
  from wheelEvent_scene_mapping [OF a v f m i w0 w1]
  have r: "pos (snd (snd (wheelEvent example_wheel example_item))) =
       (10 + 100 * (1 - double_1_1), 20 + 50 * (1 - double_1_1)) \<and>
     mapToScene (snd (snd (wheelEvent example_wheel example_item))) (100, 50) =
       mapToScene (applyWheelTrafoNaive (wheelTrafo example_wheel) example_item) (100, 50) \<and>
     map_point (transform (snd (snd (wheelEvent example_wheel example_item)))) (0, 0) = (0, 0)"
    unfolding o p fst_conv snd_conv using z by (simp only: if_False simp_thms)
  from wheelEvent_scene_mapping [OF a v f mn i wn wn]
  have rn: "pos (snd (snd (wheelEvent example_wheel_near example_item))) = (10, 20) \<and>
     \<bar>(1 - double_1_1) / 2 ^ 37\<bar> \<le> max double_1e_12 (\<bar>10\<bar> / 1000000000000) \<and>
     map_point (transform (snd (snd (wheelEvent example_wheel_near example_item)))) (0, 0) = (0, 0)"
    unfolding on p fst_conv snd_conv using zn by (simp only: if_True simp_thms)
  from a v f m i w0 w1 p o z r n mn wn on zn rn show ?thesis by blast
qed

section \<open>Properties of the pixmap requests\<close>

text \<open>
  A request that finds the future requested before still pending never returns, whatever
  else the item holds.
\<close>

lemma requestPixMap_pending_hangs:
  assumes "cell_availability c = Some preview \<or> cell_availability c = Some image"
    and "requestedPixMapParams c \<noteq> Some (currentParams c)"
    and "cell_path c = Some p"
    and "lastRequestedFuture c = Some f"
    and "f < length (threadPool c)"
    and "threadPool c ! f = PENDING"
  shows "fst (requestPixMap c) = Hangs"
  using assms by (simp add: requestPixMap_def cancel_def Let_def nth_append)

text \<open>
  When a worker has taken the first future before the second request, the later request
  wins in either order of completion: one pixmap is applied, that of future 1.
\<close>

lemma latest_wins_earlier_finishes_first:
  "run [SetVisible True, WorkerStarts 0, SetContrastEnhancement histogram, WorkerStarts 1,
        WorkerFinishes 0, WorkerFinishes 1, Paint] example_cell = (r, c) \<Longrightarrow>
   r = Completed \<and> pixmaps c = [1]"
  by (auto simp add: pixmap_defs Let_def)

lemma latest_wins_later_finishes_first:
  "run [SetVisible True, WorkerStarts 0, SetContrastEnhancement histogram, WorkerStarts 1,
        WorkerFinishes 1, WorkerFinishes 0, Paint] example_cell = (r, c) \<Longrightarrow>
   r = Completed \<and> pixmaps c = [1]"
  by (auto simp add: pixmap_defs Let_def)

text \<open>
  Claim C9 says that two requests for one image in rapid succession end with exactly one
  pixmap applied, that of the later request. The code misses it when the two requests
  come before a worker has taken the first future: the image is shown, which is the first
  request, and the contrast is changed at once, which is the second. The second request
  cancels the pending future with the lock held and hangs; no pixmap is applied.
\<close>

theorem requestPixMap_rapid_succession_hangs:
  "fst (run [SetVisible True, SetContrastEnhancement histogram] example_cell) = Hangs \<and>
   threadPool (snd (run [SetVisible True, SetContrastEnhancement histogram] example_cell)) =
     [CANCELLED, PENDING] \<and>
   lastRequestedFuture (snd (run [SetVisible True, SetContrastEnhancement histogram] example_cell)) =
     Some 0 \<and>
   pixmaps (snd (run [SetVisible True, SetContrastEnhancement histogram] example_cell)) = []"
  by (simp add: pixmap_defs Let_def)

end
